theory Spec2Isabelle
  imports Complex_Main
begin

section \<open>Vectors and the GLSL built-ins used by the shaders\<close>

text \<open>
  The two fragment shaders of the ripple effect are embedded as HOL functions.
  A GLSL \<open>float\<close> and a JavaScript number are modelled by \<^typ>\<open>real\<close>: the
  development is about the arithmetic the program performs, not about rounding.
  The built-ins follow their definitions in the GLSL ES specification.
\<close>

datatype vec2 = Vec2 (vec2_x: real) (vec2_y: real)

datatype vec3 = Vec3 (vec3_x: real) (vec3_y: real) (vec3_z: real)

datatype vec4 = Vec4 (vec4_r: real) (vec4_g: real) (vec4_b: real) (vec4_a: real)

definition add2 :: "vec2 \<Rightarrow> vec2 \<Rightarrow> vec2" where
  "add2 p q = Vec2 (vec2_x p + vec2_x q) (vec2_y p + vec2_y q)"

definition sub2 :: "vec2 \<Rightarrow> vec2 \<Rightarrow> vec2" where
  "sub2 p q = Vec2 (vec2_x p - vec2_x q) (vec2_y p - vec2_y q)"

definition scale2 :: "vec2 \<Rightarrow> real \<Rightarrow> vec2" where
  "scale2 p k = Vec2 (vec2_x p * k) (vec2_y p * k)"

definition add3 :: "vec3 \<Rightarrow> vec3 \<Rightarrow> vec3" where
  "add3 p q = Vec3 (vec3_x p + vec3_x q) (vec3_y p + vec3_y q) (vec3_z p + vec3_z q)"

definition splat3 :: "real \<Rightarrow> vec3" where
  "splat3 k = Vec3 k k k"

definition mix :: "real \<Rightarrow> real \<Rightarrow> real \<Rightarrow> real" where
  "mix x y a = x * (1 - a) + y * a"

definition mix2 :: "vec2 \<Rightarrow> vec2 \<Rightarrow> real \<Rightarrow> vec2" where
  "mix2 p q a = Vec2 (mix (vec2_x p) (vec2_x q) a) (mix (vec2_y p) (vec2_y q) a)"

definition clamp :: "real \<Rightarrow> real \<Rightarrow> real \<Rightarrow> real" where
  "clamp x lo hi = min (max x lo) hi"

definition clamp2 :: "vec2 \<Rightarrow> real \<Rightarrow> real \<Rightarrow> vec2" where
  "clamp2 p lo hi = Vec2 (clamp (vec2_x p) lo hi) (clamp (vec2_y p) lo hi)"

definition smoothstep :: "real \<Rightarrow> real \<Rightarrow> real \<Rightarrow> real" where
  "smoothstep edge0 edge1 x =
     (let t = clamp ((x - edge0) / (edge1 - edge0)) 0 1 in t * t * (3 - 2 * t))"

text \<open>
  GLSL leaves \<open>pow x y\<close> undefined for a negative base; the shaders only raise
  values that are at least 0.
\<close>

definition pow :: "real \<Rightarrow> real \<Rightarrow> real" where
  "pow x y = x powr y"

definition length2 :: "vec2 \<Rightarrow> real" where
  "length2 p = sqrt (vec2_x p * vec2_x p + vec2_y p * vec2_y p)"

definition distance :: "vec2 \<Rightarrow> vec2 \<Rightarrow> real" where
  "distance p q = length2 (sub2 p q)"

definition length3 :: "vec3 \<Rightarrow> real" where
  "length3 p = sqrt (vec3_x p * vec3_x p + vec3_y p * vec3_y p + vec3_z p * vec3_z p)"

definition normalize :: "vec3 \<Rightarrow> vec3" where
  "normalize p = Vec3 (vec3_x p / length3 p) (vec3_y p / length3 p) (vec3_z p / length3 p)"

definition dot :: "vec3 \<Rightarrow> vec3 \<Rightarrow> real" where
  "dot p q = vec3_x p * vec3_x q + vec3_y p * vec3_y q + vec3_z p * vec3_z q"

text \<open>
  A \<open>sampler2D\<close> is what \<open>texture2D\<close> can be asked: a colour for every
  texture coordinate.
\<close>

type_synonym sampler2D = "vec2 \<Rightarrow> vec4"

definition texture2D :: "sampler2D \<Rightarrow> vec2 \<Rightarrow> vec4" where
  "texture2D s uv = s uv"

section \<open>Render targets\<close>

text \<open>
  The three ping-pong buffers are \<open>RESOLUTION \<times> RESOLUTION\<close> float RGBA render
  targets with \<open>LinearFilter\<close> for minification and magnification, and the default
  clamp-to-edge wrapping. A target is the grid of its texel colours; its texture
  is sampled by bilinear interpolation between the four nearest texel centres,
  texel indices being clamped to the grid.
\<close>

definition RESOLUTION :: nat where
  "RESOLUTION = 512"

type_synonym renderTarget = "nat \<Rightarrow> nat \<Rightarrow> vec4"

definition clampToEdge :: "int \<Rightarrow> nat" where
  "clampToEdge i = nat (max 0 (min (int RESOLUTION - 1) i))"

definition linearFilter :: "(nat \<Rightarrow> nat \<Rightarrow> real) \<Rightarrow> vec2 \<Rightarrow> real" where
  "linearFilter T uv =
     (let x = vec2_x uv * real RESOLUTION - 1 / 2;
          y = vec2_y uv * real RESOLUTION - 1 / 2;
          i0 = \<lfloor>x\<rfloor>; j0 = \<lfloor>y\<rfloor>;
          a = x - of_int i0; b = y - of_int j0
      in mix (mix (T (clampToEdge i0) (clampToEdge j0))
                  (T (clampToEdge (i0 + 1)) (clampToEdge j0)) a)
             (mix (T (clampToEdge i0) (clampToEdge (j0 + 1)))
                  (T (clampToEdge (i0 + 1)) (clampToEdge (j0 + 1))) a) b)"

definition texture :: "renderTarget \<Rightarrow> sampler2D" where
  "texture rt uv =
     Vec4 (linearFilter (\<lambda>i j. vec4_r (rt i j)) uv)
          (linearFilter (\<lambda>i j. vec4_g (rt i j)) uv)
          (linearFilter (\<lambda>i j. vec4_b (rt i j)) uv)
          (linearFilter (\<lambda>i j. vec4_a (rt i j)) uv)"

text \<open>
  Rendering the full-screen quad into a target runs the fragment shader once per
  texel, with \<open>vUv\<close> at the texel's centre.
\<close>

definition texelCentre :: "nat \<Rightarrow> nat \<Rightarrow> vec2" where
  "texelCentre i j =
     Vec2 ((real i + 1 / 2) / real RESOLUTION) ((real j + 1 / 2) / real RESOLUTION)"

definition render :: "(vec2 \<Rightarrow> vec4) \<Rightarrow> renderTarget" where
  "render frag = (\<lambda>i j. frag (texelCentre i j))"

section \<open>The fluid update shader\<close>

record fluidUniforms =
  uPrevState :: sampler2D
  uCurrentState :: sampler2D
  uResolution :: vec2
  uViscosity :: real
  uDecay :: real
  uMouse :: vec2
  uPrevMouse :: vec2
  uRadius :: real
  uIntensity :: real
  uMouseVelocity :: real

text \<open>The wave equation with viscosity and decay: the value of \<open>wave\<close> before the ripple is added.\<close>

definition dampedWave :: "fluidUniforms \<Rightarrow> vec2 \<Rightarrow> real" where
  "dampedWave u vUv =
     (let texel = Vec2 (1 / vec2_x (uResolution u)) (1 / vec2_y (uResolution u));
          current = vec4_r (texture2D (uCurrentState u) vUv);
          prev = vec4_r (texture2D (uPrevState u) vUv);
          left = vec4_r (texture2D (uCurrentState u) (add2 vUv (Vec2 (- vec2_x texel) 0)));
          right = vec4_r (texture2D (uCurrentState u) (add2 vUv (Vec2 (vec2_x texel) 0)));
          top = vec4_r (texture2D (uCurrentState u) (add2 vUv (Vec2 0 (vec2_y texel))));
          bottom = vec4_r (texture2D (uCurrentState u) (add2 vUv (Vec2 0 (- vec2_y texel))));
          neighbors = (left + right + top + bottom) * 0.25;
          wave = neighbors * 2 - prev;
          wave = mix current wave (uViscosity u);
          wave = wave * uDecay u
      in wave)"

text \<open>The trail loop \<open>for (float i = 0.0; i < 8.0; i++)\<close>, with the running maximum as accumulator.\<close>

function trail :: "fluidUniforms \<Rightarrow> vec2 \<Rightarrow> nat \<Rightarrow> real \<Rightarrow> real" where
  "trail u vUv i ripple =
     (if i < 8 then
        (let t = real i / 8;
             trailPos = mix2 (uPrevMouse u) (uMouse u) t;
             d = distance vUv trailPos;
             trailRipple = smoothstep (uRadius u * 0.7) 0 d
         in trail u vUv (i + 1) (max ripple (pow trailRipple 2)))
      else ripple)"
  by pat_completeness auto
termination
  by (relation "measure (\<lambda>(u, vUv, i, ripple). 8 - i)") auto

definition finalRipple :: "fluidUniforms \<Rightarrow> vec2 \<Rightarrow> real" where
  "finalRipple u vUv =
     (let mousePos = uMouse u;
          dist = distance vUv mousePos;
          ripple = smoothstep (uRadius u) 0 dist;
          ripple = pow ripple 2;
          ripple = trail u vUv 0 ripple
      in ripple * uIntensity u * min (uMouseVelocity u * 10) 1)"

definition fluidUpdateShader :: "fluidUniforms \<Rightarrow> vec2 \<Rightarrow> vec4" where
  "fluidUpdateShader u vUv =
     (let wave = dampedWave u vUv;
          wave = (if uMouseVelocity u > 0.0001 then wave + finalRipple u vUv else wave)
      in Vec4 wave wave wave 1)"

section \<open>The image shader\<close>

text \<open>
  The image shader has a uniform \<open>uResolution\<close> of its own; it is
  \<open>uImgResolution\<close> here, the fields of the two records sharing one name space.
\<close>

record imageUniforms =
  uTexture :: sampler2D
  uDisplacement :: sampler2D
  uViewportSize :: vec2
  uDistortionStrength :: real
  uAberration :: real
  uLightIntensity :: real
  uSpecularPower :: real
  uImgResolution :: vec2
  uImageAspect :: real
  uPlaneAspect :: real

definition coverUv :: "vec2 \<Rightarrow> real \<Rightarrow> real \<Rightarrow> vec2" where
  "coverUv uv imageAspect planeAspect =
     (let ratio = Vec2 (min (planeAspect / imageAspect) 1) (min (imageAspect / planeAspect) 1)
      in Vec2 (vec2_x uv * vec2_x ratio + (1 - vec2_x ratio) * 0.5)
              (vec2_y uv * vec2_y ratio + (1 - vec2_y ratio) * 0.5))"

definition calculateNormal :: "imageUniforms \<Rightarrow> vec2 \<Rightarrow> real \<Rightarrow> vec3" where
  "calculateNormal u uv strength =
     (let texel = Vec2 (1 / vec2_x (uImgResolution u)) (1 / vec2_y (uImgResolution u));
          left = vec4_r (texture2D (uDisplacement u) (add2 uv (Vec2 (- vec2_x texel) 0)));
          right = vec4_r (texture2D (uDisplacement u) (add2 uv (Vec2 (vec2_x texel) 0)));
          top = vec4_r (texture2D (uDisplacement u) (add2 uv (Vec2 0 (vec2_y texel))));
          bottom = vec4_r (texture2D (uDisplacement u) (add2 uv (Vec2 0 (- vec2_y texel))))
      in normalize (Vec3 ((left - right) * strength) ((bottom - top) * strength) 1))"

text \<open>
  The locals of \<open>main\<close>, in the order the shader computes them. The normal is
  always taken at the fragment's screen position with strength 50. The local
  \<open>displacement\<close> is read and never used, so it has no counterpart here.
\<close>

definition fragNormal :: "imageUniforms \<Rightarrow> vec2 \<Rightarrow> vec3" where
  "fragNormal u vScreenUv = calculateNormal u vScreenUv 50"

definition distortedUv :: "imageUniforms \<Rightarrow> vec2 \<Rightarrow> vec2 \<Rightarrow> vec2" where
  "distortedUv u vUv vScreenUv =
     (let coveredUv = coverUv vUv (uImageAspect u) (uPlaneAspect u);
          normal = fragNormal u vScreenUv;
          refraction = Vec2 (vec3_x normal * uDistortionStrength u)
                            (vec3_y normal * uDistortionStrength u);
          distorted = add2 coveredUv refraction
      in clamp2 distorted 0.001 0.999)"

definition aberrationAmount :: "imageUniforms \<Rightarrow> vec2 \<Rightarrow> real" where
  "aberrationAmount u vScreenUv =
     (let normal = fragNormal u vScreenUv
      in uAberration u * (\<bar>vec3_x normal\<bar> + \<bar>vec3_y normal\<bar>))"

definition sampleR :: "imageUniforms \<Rightarrow> vec2 \<Rightarrow> vec2 \<Rightarrow> vec2" where
  "sampleR u vUv vScreenUv =
     add2 (distortedUv u vUv vScreenUv) (Vec2 (aberrationAmount u vScreenUv) 0)"

definition sampleG :: "imageUniforms \<Rightarrow> vec2 \<Rightarrow> vec2 \<Rightarrow> vec2" where
  "sampleG u vUv vScreenUv = distortedUv u vUv vScreenUv"

definition sampleB :: "imageUniforms \<Rightarrow> vec2 \<Rightarrow> vec2 \<Rightarrow> vec2" where
  "sampleB u vUv vScreenUv =
     sub2 (distortedUv u vUv vScreenUv) (Vec2 (aberrationAmount u vScreenUv) 0)"

definition refractedColor :: "imageUniforms \<Rightarrow> vec2 \<Rightarrow> vec2 \<Rightarrow> vec3" where
  "refractedColor u vUv vScreenUv =
     (let colorR = texture2D (uTexture u) (sampleR u vUv vScreenUv);
          colorG = texture2D (uTexture u) (sampleG u vUv vScreenUv);
          colorB = texture2D (uTexture u) (sampleB u vUv vScreenUv)
      in Vec3 (vec4_r colorR) (vec4_g colorG) (vec4_b colorB))"

definition rippleMask :: "imageUniforms \<Rightarrow> vec2 \<Rightarrow> real" where
  "rippleMask u vScreenUv =
     (let normal = fragNormal u vScreenUv;
          normalDeviation = length2 (Vec2 (vec3_x normal) (vec3_y normal))
      in smoothstep 0.01 0.1 normalDeviation)"

definition specular :: "imageUniforms \<Rightarrow> vec2 \<Rightarrow> real" where
  "specular u vScreenUv =
     (let normal = fragNormal u vScreenUv;
          lightDir = normalize (Vec3 0.5 0.5 1);
          viewDir = Vec3 0 0 1;
          halfDir = normalize (add3 lightDir viewDir);
          spec = pow (max (dot normal halfDir) 0) (uSpecularPower u)
      in spec * (uLightIntensity u * rippleMask u vScreenUv))"

definition fresnel :: "imageUniforms \<Rightarrow> vec2 \<Rightarrow> real" where
  "fresnel u vScreenUv =
     (let normal = fragNormal u vScreenUv;
          viewDir = Vec3 0 0 1
      in pow (1 - max (dot normal viewDir) 0) 2)"

definition imageFragmentShader :: "imageUniforms \<Rightarrow> vec2 \<Rightarrow> vec2 \<Rightarrow> vec4" where
  "imageFragmentShader u vUv vScreenUv =
     (let color = refractedColor u vUv vScreenUv;
          color = add3 color (splat3 (specular u vScreenUv));
          color = add3 color (splat3 (fresnel u vScreenUv * uLightIntensity u * 0.1
                                        * rippleMask u vScreenUv))
      in Vec4 (vec3_x color) (vec3_y color) (vec3_z color) 1)"

section \<open>The component state and the frame callback\<close>

record settings =
  intensity :: real
  scale :: real
  viscosity :: real
  decay :: real
  distortionStrength :: real
  aberration :: real
  lightIntensity :: real
  specularPower :: real

text \<open>
  The refs and memoised objects that \<open>useFrame\<close> reads and writes.
  \<open>quadMeshRef\<close> records whether the ref holds a mesh (it is \<open>null\<close> until the
  set-up effect has run). \<open>imageAspectsRef\<close> and \<open>imageMaterials\<close> are both built
  from the \<open>images\<close> array, one entry per image.
\<close>

record state =
  mouseRef :: vec2
  prevMouseRef :: vec2
  mouseVelocityRef :: real
  isPointerInsideRef :: bool
  pingPongRef :: nat
  renderTargets :: "nat \<Rightarrow> renderTarget"
  quadMeshRef :: bool
  fluidUpdateMaterial :: fluidUniforms
  imageAspectsRef :: "real list"
  imageMaterials :: "imageUniforms list"

text \<open>
  The per-frame update of one image material, given the freshly rendered
  displacement texture and the image's aspect ratio. Every image plane has the
  size of the viewport, so the plane aspect is the viewport's.
\<close>

definition updateImageMaterial ::
  "settings \<Rightarrow> vec2 \<Rightarrow> sampler2D \<Rightarrow> imageUniforms \<times> real \<Rightarrow> imageUniforms" where
  "updateImageMaterial st viewport disp matAspect =
     (case matAspect of (mat, aspect) \<Rightarrow>
        mat\<lparr> uDisplacement := disp,
             uViewportSize := viewport,
             uDistortionStrength := distortionStrength st,
             uAberration := aberration st,
             uLightIntensity := lightIntensity st,
             uSpecularPower := specularPower st,
             uImageAspect := aspect,
             uPlaneAspect := vec2_x viewport / vec2_y viewport \<rparr>)"

text \<open>
  The pointer handlers. \<open>updatePointer\<close> normalises the client coordinates by
  the canvas rectangle, flipping y; a zero-sized rectangle gives an infinite or
  undefined quotient, which is never inside.
\<close>

record domRect =
  rectLeft :: real
  rectTop :: real
  rectWidth :: real
  rectHeight :: real

definition updatePointer :: "domRect \<Rightarrow> real \<Rightarrow> real \<Rightarrow> state \<Rightarrow> state" where
  "updatePointer rect clientX clientY s =
     (let x = (clientX - rectLeft rect) / rectWidth rect;
          y = 1 - (clientY - rectTop rect) / rectHeight rect;
          inside = (rectWidth rect \<noteq> 0 \<and> rectHeight rect \<noteq> 0
                    \<and> x \<ge> 0 \<and> x \<le> 1 \<and> y \<ge> 0 \<and> y \<le> 1)
      in if inside then s\<lparr> isPointerInsideRef := inside, mouseRef := Vec2 x y \<rparr>
         else s\<lparr> isPointerInsideRef := inside \<rparr>)"

definition handlePointerLeave :: "state \<Rightarrow> state" where
  "handlePointerLeave s = s\<lparr> isPointerInsideRef := False, prevMouseRef := mouseRef s \<rparr>"

text \<open>The velocity sampled by a frame: the distance moved since the last frame, or 0 outside the canvas.\<close>

definition pointerVelocity :: "state \<Rightarrow> real" where
  "pointerVelocity s =
     (let dx = vec2_x (mouseRef s) - vec2_x (prevMouseRef s);
          dy = vec2_y (mouseRef s) - vec2_y (prevMouseRef s);
          rawVelocity = sqrt (dx * dx + dy * dy)
      in if isPointerInsideRef s then rawVelocity else 0)"

text \<open>The uniforms of the fluid material as the frame sets them before rendering.\<close>

definition frameMaterial :: "settings \<Rightarrow> state \<Rightarrow> fluidUniforms" where
  "frameMaterial st s =
     (let velocity = pointerVelocity s;
          current = pingPongRef s;
          prev = (current + 2) mod 3
      in (fluidUpdateMaterial s)\<lparr>
           uViscosity := viscosity st,
           uDecay := decay st,
           uRadius := scale st,
           uIntensity := intensity st,
           uMouse := mouseRef s,
           uPrevMouse := prevMouseRef s,
           uMouseVelocity := velocity,
           uPrevState := texture (renderTargets s prev),
           uCurrentState := texture (renderTargets s current) \<rparr>)"

definition useFrame :: "settings \<Rightarrow> vec2 \<Rightarrow> state \<Rightarrow> state" where
  "useFrame st viewport s =
     (if \<not> quadMeshRef s then s
      else
        let velocity = pointerVelocity s;
            material = frameMaterial st s;
            current = pingPongRef s;
            next = (current + 1) mod 3;
            targets = (renderTargets s)(next := render (fluidUpdateShader material))
        in s\<lparr> mouseVelocityRef := velocity,
              fluidUpdateMaterial := material,
              renderTargets := targets,
              imageMaterials :=
                map (updateImageMaterial st viewport (texture (targets next)))
                    (zip (imageMaterials s) (imageAspectsRef s)),
              pingPongRef := next,
              prevMouseRef := mouseRef s \<rparr>)"

text \<open>
  The component once mounted, for the given settings, viewport size and image
  textures: pointer refs at the centre and outside, the three targets cleared,
  the quad mesh installed, one material and one aspect ratio (1 until the image
  has loaded) per image.
\<close>

definition clearedTarget :: renderTarget where
  "clearedTarget = (\<lambda>i j. Vec4 0 0 0 0)"

definition mountState :: "settings \<Rightarrow> vec2 \<Rightarrow> sampler2D list \<Rightarrow> state" where
  "mountState st viewport textures =
     \<lparr> mouseRef = Vec2 0.5 0.5,
       prevMouseRef = Vec2 0.5 0.5,
       mouseVelocityRef = 0,
       isPointerInsideRef = False,
       pingPongRef = 0,
       renderTargets = (\<lambda>k. clearedTarget),
       quadMeshRef = True,
       fluidUpdateMaterial =
         \<lparr> uPrevState = texture clearedTarget,
           uCurrentState = texture clearedTarget,
           uResolution = Vec2 (real RESOLUTION) (real RESOLUTION),
           uViscosity = viscosity st,
           uDecay = decay st,
           uMouse = Vec2 0.5 0.5,
           uPrevMouse = Vec2 0.5 0.5,
           uRadius = scale st,
           uIntensity = intensity st,
           uMouseVelocity = 0 \<rparr>,
       imageAspectsRef = map (\<lambda>tex. 1) textures,
       imageMaterials =
         map (\<lambda>tex.
               \<lparr> uTexture = tex,
                 uDisplacement = texture clearedTarget,
                 uViewportSize = viewport,
                 uDistortionStrength = distortionStrength st,
                 uAberration = aberration st,
                 uLightIntensity = lightIntensity st,
                 uSpecularPower = specularPower st,
                 uImgResolution = Vec2 (real RESOLUTION) (real RESOLUTION),
                 uImageAspect = 1,
                 uPlaneAspect = 1 \<rparr>) textures \<rparr>"

text \<open>The settings of the demo page.\<close>

definition rippleSettings :: settings where
  "rippleSettings =
     \<lparr> intensity = 0.06, scale = 0.05, viscosity = 0.89, decay = 0.98,
       distortionStrength = 0.05, aberration = 0.01, lightIntensity = 0.04,
       specularPower = 8.1 \<rparr>"

section \<open>The update rule as the specification words it\<close>

definition spec_wave ::
  "real \<Rightarrow> real \<Rightarrow> real \<Rightarrow> real \<Rightarrow> real \<Rightarrow> real \<Rightarrow> real \<Rightarrow> real \<Rightarrow> real" where
  "spec_wave leftValue rightValue topValue bottomValue currentValue prevValue visc dec =
     (let neighborAvg = 0.25 * (leftValue + rightValue + topValue + bottomValue);
          wave = 2 * neighborAvg - prevValue;
          wave = mix currentValue wave visc;
          wave = wave * dec
      in wave)"

text \<open>
  A scalar field is uniform when every cell of the grid holds the same height
  (the red channel; the shaders read no other).
\<close>

definition uniformField :: "renderTarget \<Rightarrow> real \<Rightarrow> bool" where
  "uniformField rt v = (\<forall>i<RESOLUTION. \<forall>j<RESOLUTION. vec4_r (rt i j) = v)"

text \<open>
  A state in which nothing moves and nothing is raised: the mesh is installed,
  the rotating index is valid, the sampled velocity is below the injection
  threshold and the three buffers hold 0 in every cell.
\<close>

definition stillAndZero :: "state \<Rightarrow> bool" where
  "stillAndZero s \<longleftrightarrow>
     quadMeshRef s \<and> pingPongRef s < 3 \<and> pointerVelocity s \<le> 0.0001
     \<and> (\<forall>k<3. uniformField (renderTargets s k) 0)"

text \<open>
  Uniform fields under repeated frames without injection. When the previous
  buffer holds \<open>p\<close> everywhere and the current buffer \<open>c\<close>, every neighbour
  average is \<open>c\<close>, so a frame writes \<open>mix c (2 * c - p) viscosity * decay\<close>
  everywhere. \<open>uniformHeights\<close> iterates this on the pair (previous, current);
  \<open>uniformBuffers\<close> says that a state is in this situation.
\<close>

fun uniformHeights :: "real \<Rightarrow> real \<Rightarrow> real \<Rightarrow> real \<Rightarrow> nat \<Rightarrow> real \<times> real" where
  "uniformHeights a d p c 0 = (p, c)"
| "uniformHeights a d p c (Suc n) =
     (case uniformHeights a d p c n of (p', c') \<Rightarrow> (c', mix c' (2 * c' - p') a * d))"

definition uniformBuffers :: "state \<Rightarrow> real \<Rightarrow> real \<Rightarrow> bool" where
  "uniformBuffers s p c \<longleftrightarrow>
     quadMeshRef s \<and> pingPongRef s < 3 \<and> pointerVelocity s \<le> 0.0001
     \<and> uniformField (renderTargets s ((pingPongRef s + 2) mod 3)) p
     \<and> uniformField (renderTargets s (pingPongRef s)) c"

section \<open>Example states\<close>

text \<open>
  A field with a single raised cell in the current buffer; a pointer that, since
  the last frame, has moved inside a 1000 by 1000 canvas from the centre to
  \<open>(0.9, 0.9)\<close> and then been reported outside it; a pointer creeping inside the
  canvas by less than the injection threshold.
\<close>

definition bumpTarget :: renderTarget where
  "bumpTarget = (\<lambda>i j. if i = 3 \<and> j = 4 then Vec4 1 1 1 1 else Vec4 0 0 0 1)"

definition bumpState :: state where
  "bumpState =
     (mountState rippleSettings (Vec2 16 9) [])\<lparr>
        renderTargets := (\<lambda>k. if k = 0 then bumpTarget else clearedTarget) \<rparr>"

definition canvasRect :: domRect where
  "canvasRect = \<lparr> rectLeft = 0, rectTop = 0, rectWidth = 1000, rectHeight = 1000 \<rparr>"

definition outsideState :: state where
  "outsideState =
     updatePointer canvasRect 1500 100
       (updatePointer canvasRect 900 100 (mountState rippleSettings (Vec2 16 9) []))"

definition creepState :: state where
  "creepState =
     (mountState rippleSettings (Vec2 16 9) [])\<lparr>
        renderTargets := (\<lambda>k. if k = 0 then bumpTarget else clearedTarget),
        mouseRef := Vec2 0.5 0.50005, prevMouseRef := Vec2 0.5 0.5, isPointerInsideRef := True \<rparr>"

text \<open>
  Settings outside their documented domain; an image whose red and green channels
  are its own coordinates; an image material over a still (all-zero) displacement
  field, image and plane both square; the same material over a displacement
  field that slopes down along x by 3/400 per cell.
\<close>

definition wildSettings :: settings where
  "wildSettings = rippleSettings\<lparr> viscosity := 2, scale := - 1 \<rparr>"

definition gradientImage :: sampler2D where
  "gradientImage = (\<lambda>uv. Vec4 (vec2_x uv) (vec2_y uv) 0 1)"

definition stillMaterial :: imageUniforms where
  "stillMaterial =
     \<lparr> uTexture = gradientImage,
       uDisplacement = texture clearedTarget,
       uViewportSize = Vec2 16 16,
       uDistortionStrength = 0.05,
       uAberration = 0.01,
       uLightIntensity = 0.04,
       uSpecularPower = 8.1,
       uImgResolution = Vec2 (real RESOLUTION) (real RESOLUTION),
       uImageAspect = 1,
       uPlaneAspect = 1 \<rparr>"

definition slopeTarget :: renderTarget where
  "slopeTarget = (\<lambda>i j. Vec4 (- (3 / 400) * real i) 0 0 1)"

definition slopeMaterial :: imageUniforms where
  "slopeMaterial = stillMaterial\<lparr> uDisplacement := texture slopeTarget \<rparr>"

text \<open>
  Settings inside their documented domain with full viscosity and a strong decay;
  a state whose three buffers hold 1 in every cell.
\<close>

definition overshootSettings :: settings where
  "overshootSettings = rippleSettings\<lparr> viscosity := 1, decay := 1 / 2 \<rparr>"

definition raisedState :: state where
  "raisedState =
     (mountState rippleSettings (Vec2 16 9) [])\<lparr> renderTargets := (\<lambda>k i j. Vec4 1 1 1 1) \<rparr>"

section \<open>Cover fit\<close>

text \<open>
  C9. Cover fit is the identity when the image and the plane have the same
  aspect ratio: for every positive aspect \<open>a\<close> and every \<open>uv\<close> (in the unit
  square or not) \<open>coverUv uv a a = uv\<close>.
\<close>

theorem coverUv_same_aspect: "0 < a \<Longrightarrow> coverUv uv a a = uv"
  by (cases uv) (simp add: coverUv_def)

theorem coverUv_same_aspect_witness:
  "(0::real) < 16 / 9 \<and> coverUv (Vec2 (1 / 4) (3 / 4)) (16 / 9) (16 / 9) = Vec2 (1 / 4) (3 / 4)"
  using coverUv_same_aspect [of "16 / 9" "Vec2 (1 / 4) (3 / 4)"] by simp

section \<open>Sampling a render target at texel centres\<close>

lemma linearFilter_grid:
  "linearFilter T (add2 (texelCentre i j) (Vec2 (of_int k / real RESOLUTION) (of_int l / real RESOLUTION)))
     = T (clampToEdge (int i + k)) (clampToEdge (int j + l))"
proof -
  have x: "((real i + 1 / 2) / real RESOLUTION + of_int k / real RESOLUTION) * real RESOLUTION - 1 / 2
        = of_int (int i + k)"
    by (simp add: RESOLUTION_def field_simps)
  have y: "((real j + 1 / 2) / real RESOLUTION + of_int l / real RESOLUTION) * real RESOLUTION - 1 / 2
        = of_int (int j + l)"
    by (simp add: RESOLUTION_def field_simps)
  show ?thesis
    unfolding linearFilter_def texelCentre_def add2_def vec2.sel Let_def x y
    by (simp add: mix_def)
qed

lemma texture_grid_r:
  "vec4_r (texture rt (add2 (texelCentre i j) (Vec2 (of_int k / real RESOLUTION) (of_int l / real RESOLUTION))))
     = vec4_r (rt (clampToEdge (int i + k)) (clampToEdge (int j + l)))"
  by (simp add: texture_def linearFilter_grid)

lemma clampToEdge_in: "i < RESOLUTION \<Longrightarrow> clampToEdge (int i) = i"
  by (simp add: clampToEdge_def)

lemma clampToEdge_pred: "i < RESOLUTION \<Longrightarrow> clampToEdge (int i - 1) = i - 1"
  by (auto simp add: clampToEdge_def RESOLUTION_def)

lemma clampToEdge_succ: "i < RESOLUTION \<Longrightarrow> clampToEdge (int i + 1) = min (i + 1) (RESOLUTION - 1)"
  by (auto simp add: clampToEdge_def RESOLUTION_def)

lemma clampToEdge_less: "clampToEdge k < RESOLUTION"
  by (auto simp add: clampToEdge_def RESOLUTION_def)

text \<open>A target whose cells all hold the same red value samples to that value everywhere.\<close>

lemma linearFilter_uniform:
  assumes "\<forall>i<RESOLUTION. \<forall>j<RESOLUTION. T i j = v"
  shows "linearFilter T uv = v"
proof -
  have "T (clampToEdge k) (clampToEdge l) = v" for k l
    using assms clampToEdge_less by blast
  then show ?thesis
    by (simp add: linearFilter_def Let_def mix_def algebra_simps)
qed

lemma texture_uniform_r:
  "\<forall>i<RESOLUTION. \<forall>j<RESOLUTION. vec4_r (rt i j) = v \<Longrightarrow> vec4_r (texture rt uv) = v"
  by (simp add: texture_def linearFilter_uniform)

text \<open>
  At a texel centre the shaders read the texel itself and, one texel away, the
  adjacent texels, the edge texel repeated at the border.
\<close>

lemma texture_neighbours:
  assumes "i < RESOLUTION" "j < RESOLUTION"
  shows "vec4_r (texture rt (texelCentre i j)) = vec4_r (rt i j)"
    and "vec4_r (texture rt (add2 (texelCentre i j) (Vec2 (- (1 / real RESOLUTION)) 0)))
           = vec4_r (rt (i - 1) j)"
    and "vec4_r (texture rt (add2 (texelCentre i j) (Vec2 (1 / real RESOLUTION) 0)))
           = vec4_r (rt (min (i + 1) (RESOLUTION - 1)) j)"
    and "vec4_r (texture rt (add2 (texelCentre i j) (Vec2 0 (1 / real RESOLUTION))))
           = vec4_r (rt i (min (j + 1) (RESOLUTION - 1)))"
    and "vec4_r (texture rt (add2 (texelCentre i j) (Vec2 0 (- (1 / real RESOLUTION)))))
           = vec4_r (rt i (j - 1))"
proof -
  show "vec4_r (texture rt (texelCentre i j)) = vec4_r (rt i j)"
    using texture_grid_r [of rt i j 0 0] assms
    by (simp add: add2_def texelCentre_def clampToEdge_in)
  show "vec4_r (texture rt (add2 (texelCentre i j) (Vec2 (- (1 / real RESOLUTION)) 0)))
           = vec4_r (rt (i - 1) j)"
    using texture_grid_r [of rt i j "-1" 0] assms
    by (simp add: clampToEdge_in clampToEdge_pred)
  show "vec4_r (texture rt (add2 (texelCentre i j) (Vec2 (1 / real RESOLUTION) 0)))
           = vec4_r (rt (min (i + 1) (RESOLUTION - 1)) j)"
    using texture_grid_r [of rt i j 1 0] assms
    by (simp add: clampToEdge_in clampToEdge_succ)
  show "vec4_r (texture rt (add2 (texelCentre i j) (Vec2 0 (1 / real RESOLUTION))))
           = vec4_r (rt i (min (j + 1) (RESOLUTION - 1)))"
    using texture_grid_r [of rt i j 0 1] assms
    by (simp add: clampToEdge_in clampToEdge_succ)
  show "vec4_r (texture rt (add2 (texelCentre i j) (Vec2 0 (- (1 / real RESOLUTION)))))
           = vec4_r (rt i (j - 1))"
    using texture_grid_r [of rt i j 0 "-1"] assms
    by (simp add: clampToEdge_in clampToEdge_pred)
qed

lemma dampedWave_cell:
  assumes "i < RESOLUTION" "j < RESOLUTION"
    and "uResolution u = Vec2 (real RESOLUTION) (real RESOLUTION)"
    and "uCurrentState u = texture cur" "uPrevState u = texture prv"
  shows "dampedWave u (texelCentre i j) =
     spec_wave (vec4_r (cur (i - 1) j)) (vec4_r (cur (min (i + 1) (RESOLUTION - 1)) j))
               (vec4_r (cur i (min (j + 1) (RESOLUTION - 1)))) (vec4_r (cur i (j - 1)))
               (vec4_r (cur i j)) (vec4_r (prv i j)) (uViscosity u) (uDecay u)"
  unfolding dampedWave_def spec_wave_def Let_def texture2D_def assms(3,4,5) vec2.sel
    texture_neighbours [OF assms(1,2)]
  by (simp add: algebra_simps)

lemma calculateNormal_cell:
  assumes "i < RESOLUTION" "j < RESOLUTION"
    and "uImgResolution u = Vec2 (real RESOLUTION) (real RESOLUTION)"
    and "uDisplacement u = texture rt"
  shows "calculateNormal u (texelCentre i j) strength =
     normalize (Vec3 ((vec4_r (rt (i - 1) j) - vec4_r (rt (min (i + 1) (RESOLUTION - 1)) j)) * strength)
                     ((vec4_r (rt i (j - 1)) - vec4_r (rt i (min (j + 1) (RESOLUTION - 1)))) * strength)
                     1)"
  unfolding calculateNormal_def Let_def texture2D_def assms(3,4) vec2.sel
    texture_neighbours [OF assms(1,2)]
  by simp

lemma dampedWave_uniform:
  assumes "\<forall>p. vec4_r (uCurrentState u p) = c" "\<forall>p. vec4_r (uPrevState u p) = q"
  shows "dampedWave u vUv = mix c (2 * c - q) (uViscosity u) * uDecay u"
  by (simp add: dampedWave_def Let_def texture2D_def assms)

section \<open>What a frame changes\<close>

lemma frameMaterial_sel:
  "uViscosity (frameMaterial st s) = viscosity st"
  "uDecay (frameMaterial st s) = decay st"
  "uRadius (frameMaterial st s) = scale st"
  "uIntensity (frameMaterial st s) = intensity st"
  "uMouse (frameMaterial st s) = mouseRef s"
  "uPrevMouse (frameMaterial st s) = prevMouseRef s"
  "uMouseVelocity (frameMaterial st s) = pointerVelocity s"
  "uPrevState (frameMaterial st s) = texture (renderTargets s ((pingPongRef s + 2) mod 3))"
  "uCurrentState (frameMaterial st s) = texture (renderTargets s (pingPongRef s))"
  "uResolution (frameMaterial st s) = uResolution (fluidUpdateMaterial s)"
  by (simp_all add: frameMaterial_def Let_def)

lemma useFrame_sel:
  assumes "quadMeshRef s"
  shows "pingPongRef (useFrame st vp s) = (pingPongRef s + 1) mod 3"
    and "mouseVelocityRef (useFrame st vp s) = pointerVelocity s"
    and "fluidUpdateMaterial (useFrame st vp s) = frameMaterial st s"
    and "renderTargets (useFrame st vp s) =
           (renderTargets s)((pingPongRef s + 1) mod 3 := render (fluidUpdateShader (frameMaterial st s)))"
    and "prevMouseRef (useFrame st vp s) = mouseRef s"
    and "mouseRef (useFrame st vp s) = mouseRef s"
    and "isPointerInsideRef (useFrame st vp s) = isPointerInsideRef s"
    and "quadMeshRef (useFrame st vp s)"
    and "imageAspectsRef (useFrame st vp s) = imageAspectsRef s"
    and "imageMaterials (useFrame st vp s) =
           map (updateImageMaterial st vp (texture (render (fluidUpdateShader (frameMaterial st s)))))
               (zip (imageMaterials s) (imageAspectsRef s))"
  using assms by (simp_all add: useFrame_def Let_def)

lemma pointerVelocity_after_frame:
  "quadMeshRef s \<Longrightarrow> pointerVelocity (useFrame st vp s) = 0"
  by (simp add: pointerVelocity_def useFrame_sel)

lemma fluidUpdateShader_r:
  "vec4_r (fluidUpdateShader u vUv) =
     dampedWave u vUv + (if uMouseVelocity u > 0.0001 then finalRipple u vUv else 0)"
  by (simp add: fluidUpdateShader_def Let_def)

lemma funpow_3: "(f ^^ 3) x = f (f (f x))"
  by (simp add: numeral_3_eq_3)

lemma fluidUpdateShader_still:
  "uMouseVelocity u \<le> 0.0001 \<Longrightarrow>
     fluidUpdateShader u vUv = Vec4 (dampedWave u vUv) (dampedWave u vUv) (dampedWave u vUv) 1"
  by (simp add: fluidUpdateShader_def Let_def)

lemma updateImageMaterial_sel:
  "uDistortionStrength (updateImageMaterial st vp disp (m, a)) = distortionStrength st"
  "uAberration (updateImageMaterial st vp disp (m, a)) = aberration st"
  "uLightIntensity (updateImageMaterial st vp disp (m, a)) = lightIntensity st"
  "uSpecularPower (updateImageMaterial st vp disp (m, a)) = specularPower st"
  "uDisplacement (updateImageMaterial st vp disp (m, a)) = disp"
  "uTexture (updateImageMaterial st vp disp (m, a)) = uTexture m"
  "uImageAspect (updateImageMaterial st vp disp (m, a)) = a"
  "uPlaneAspect (updateImageMaterial st vp disp (m, a)) = vec2_x vp / vec2_y vp"
  by (simp_all add: updateImageMaterial_def)

text \<open>One frame over uniform current and previous buffers, without injection.\<close>

lemma uniform_step:
  assumes "quadMeshRef s" "pointerVelocity s \<le> 0.0001"
    and "uniformField (renderTargets s (pingPongRef s)) c"
    and "uniformField (renderTargets s ((pingPongRef s + 2) mod 3)) q"
  shows "vec4_r (renderTargets (useFrame st vp s) ((pingPongRef s + 1) mod 3) i j) =
           mix c (2 * c - q) (viscosity st) * decay st"
proof -
  have "dampedWave (frameMaterial st s) (texelCentre i j) =
          mix c (2 * c - q) (uViscosity (frameMaterial st s)) * uDecay (frameMaterial st s)"
    using assms(3,4)
    by (intro dampedWave_uniform) (simp_all add: frameMaterial_sel uniformField_def texture_uniform_r)
  then show ?thesis
    using assms(1,2)
    by (simp add: useFrame_sel render_def fluidUpdateShader_still frameMaterial_sel)
qed

lemma stillAndZero_step:
  assumes "stillAndZero s"
  shows "stillAndZero (useFrame st vp s)"
proof -
  from assms have q: "quadMeshRef s" and c: "pingPongRef s < 3"
    and v: "pointerVelocity s \<le> 0.0001" and z: "\<forall>k<3. uniformField (renderTargets s k) 0"
    by (simp_all add: stillAndZero_def)
  have cur: "uniformField (renderTargets s (pingPongRef s)) 0"
    using z c by simp
  have prv: "uniformField (renderTargets s ((pingPongRef s + 2) mod 3)) 0"
    using z by simp
  have new: "uniformField (renderTargets (useFrame st vp s) ((pingPongRef s + 1) mod 3)) 0"
    unfolding uniformField_def using uniform_step [OF q v cur prv, of st vp]
    by (simp add: mix_def)
  have "uniformField (renderTargets (useFrame st vp s) k) 0" if "k < 3" for k
  proof (cases "k = (pingPongRef s + 1) mod 3")
    case True
    then show ?thesis using new by simp
  next
    case False
    then show ?thesis using z that by (simp add: useFrame_sel q)
  qed
  then show ?thesis
    using q by (simp add: stillAndZero_def useFrame_sel pointerVelocity_after_frame)
qed

lemma stillAndZero_funpow: "stillAndZero s \<Longrightarrow> stillAndZero ((useFrame st vp ^^ n) s)"
  by (induction n) (simp_all add: stillAndZero_step)

lemma creepState_velocity: "pointerVelocity creepState = 1 / 20000"
proof -
  have "sqrt ((1 / 20000)\<^sup>2) = 1 / 20000"
    by (simp only: real_sqrt_abs)
  then show ?thesis
    by (simp add: pointerVelocity_def creepState_def mountState_def power2_eq_square)
qed

section \<open>A damped two-term recurrence tends to zero\<close>

text \<open>
  The sequence \<open>x (n + 2) = P * x (n + 1) - Q * x n\<close> with \<open>0 \<le> Q < 1\<close> and
  \<open>0 < P < 1 + Q\<close> tends to 0. When the characteristic roots are complex the
  quadratic form \<open>x (n + 1)\<^sup>2 - P * x (n + 1) * x n + Q * (x n)\<^sup>2\<close> shrinks by the
  factor \<open>Q\<close> at every step; when they are real, both lie in \<open>[0, 1)\<close>.
\<close>

lemma linear_recurrence_oscillating:
  fixes x :: "nat \<Rightarrow> real"
  assumes rec: "\<And>n. x (Suc (Suc n)) = P * x (Suc n) - Q * x n"
    and Q: "0 \<le> Q" "Q < 1" and disc: "P\<^sup>2 < 4 * Q"
  shows "x \<longlonglongrightarrow> 0"
proof -
  define E where "E n = (x (Suc n))\<^sup>2 - P * x (Suc n) * x n + Q * (x n)\<^sup>2" for n
  have "E (Suc n) = Q * E n" for n
    unfolding E_def rec by (simp add: power2_eq_square algebra_simps)
  then have En: "E n = Q ^ n * E 0" for n
    by (induction n) simp_all
  define k where "k = Q - P\<^sup>2 / 4"
  have k: "0 < k"
    using disc by (simp add: k_def)
  have low: "k * (x n)\<^sup>2 \<le> E n" for n
  proof -
    have "E n - k * (x n)\<^sup>2 = (x (Suc n) - P / 2 * x n)\<^sup>2"
      unfolding E_def k_def by (simp add: power2_eq_square algebra_simps)
    moreover have "0 \<le> (x (Suc n) - P / 2 * x n)\<^sup>2"
      by simp
    ultimately show ?thesis
      by linarith
  qed
  have bound: "(x n)\<^sup>2 \<le> E 0 / k * Q ^ n" for n
    using low [of n] En [of n] k by (simp add: field_simps)
  have "(\<lambda>n. Q ^ n) \<longlonglongrightarrow> 0"
    using Q by (intro LIMSEQ_realpow_zero)
  then have lim: "(\<lambda>n. E 0 / k * Q ^ n) \<longlonglongrightarrow> 0"
    by (rule tendsto_mult_right_zero)
  have "(\<lambda>n. (x n)\<^sup>2) \<longlonglongrightarrow> 0"
  proof (rule tendsto_sandwich)
    show "\<forall>\<^sub>F n in sequentially. 0 \<le> (x n)\<^sup>2"
      by simp
    show "\<forall>\<^sub>F n in sequentially. (x n)\<^sup>2 \<le> E 0 / k * Q ^ n"
      by (rule always_eventually, rule allI, rule bound)
    show "(\<lambda>n. 0::real) \<longlonglongrightarrow> 0"
      by (rule tendsto_const)
    show "(\<lambda>n. E 0 / k * Q ^ n) \<longlonglongrightarrow> 0"
      by (rule lim)
  qed
  then have "(\<lambda>n. sqrt ((x n)\<^sup>2)) \<longlonglongrightarrow> sqrt 0"
    by (rule tendsto_real_sqrt)
  then have "(\<lambda>n. \<bar>x n\<bar>) \<longlonglongrightarrow> 0"
    by simp
  then show ?thesis
    by (simp add: tendsto_rabs_zero_iff)
qed

lemma linear_recurrence_overdamped:
  fixes x :: "nat \<Rightarrow> real"
  assumes rec: "\<And>n. x (Suc (Suc n)) = P * x (Suc n) - Q * x n"
    and Q: "0 \<le> Q" and P: "0 < P" "P < 1 + Q" "Q < 1" and disc: "4 * Q \<le> P\<^sup>2"
  shows "x \<longlonglongrightarrow> 0"
proof -
  define D where "D = sqrt (P\<^sup>2 - 4 * Q)"
  define r1 where "r1 = (P - D) / 2"
  define r2 where "r2 = (P + D) / 2"
  have D0: "0 \<le> D"
    using disc by (simp add: D_def)
  have D2: "D\<^sup>2 = P\<^sup>2 - 4 * Q"
    using disc by (simp add: D_def)
  have "D\<^sup>2 \<le> P\<^sup>2"
    using Q D2 by simp
  then have DP: "D \<le> P"
    using P(1) D0 by (simp add: power2_le_iff_abs_le)
  have "D\<^sup>2 < (2 - P)\<^sup>2"
    using P(2) D2 by (simp add: power2_eq_square algebra_simps)
  moreover have "0 \<le> 2 - P"
    using P(2,3) by simp
  ultimately have D1: "D < 2 - P"
    by (rule power2_less_imp_less)
  have r1: "0 \<le> r1" "r1 \<le> r2" and r2: "0 < r2" "r2 < 1"
    using D0 DP D1 P(1) by (simp_all add: r1_def r2_def)
  have sum: "r1 + r2 = P"
    by (simp add: r1_def r2_def field_simps)
  have prod: "r1 * r2 = Q"
    using D2 by (simp add: r1_def r2_def power2_eq_square field_simps)
  define z where "z n = x (Suc n) - r1 * x n" for n
  have "z (Suc n) = r2 * z n" for n
    unfolding z_def rec sum [symmetric] prod [symmetric] by (simp add: algebra_simps)
  then have zn: "z n = r2 ^ n * z 0" for n
    by (induction n) simp_all
  define C where "C = \<bar>z 0\<bar> / r2"
  have C: "0 \<le> C"
    using r2(1) by (simp add: C_def)
  have bound: "\<bar>x n\<bar> \<le> \<bar>x 0\<bar> * r2 ^ n + C * (real n * r2 ^ n)" for n
  proof (induction n)
    case 0
    show ?case by simp
  next
    case (Suc n)
    have "x (Suc n) = r1 * x n + r2 ^ n * z 0"
      using zn [of n] by (simp add: z_def)
    then have "\<bar>x (Suc n)\<bar> \<le> \<bar>r1 * x n\<bar> + \<bar>r2 ^ n * z 0\<bar>"
      by (simp only: abs_triangle_ineq)
    moreover have "\<bar>r1 * x n\<bar> = r1 * \<bar>x n\<bar>" "\<bar>r2 ^ n * z 0\<bar> = r2 ^ n * \<bar>z 0\<bar>"
      using r1(1) r2(1) by (simp_all add: abs_mult)
    moreover have "r1 * \<bar>x n\<bar> \<le> r2 * \<bar>x n\<bar>"
      using r1(2) by (simp add: mult_right_mono)
    moreover have "r2 * \<bar>x n\<bar> \<le> r2 * (\<bar>x 0\<bar> * r2 ^ n + C * (real n * r2 ^ n))"
      using Suc.IH r2(1) by (simp only: mult_left_mono less_imp_le)
    moreover have "r2 ^ n * \<bar>z 0\<bar> = C * r2 ^ Suc n"
      using r2(1) by (simp add: C_def)
    ultimately have "\<bar>x (Suc n)\<bar> \<le> r2 * (\<bar>x 0\<bar> * r2 ^ n + C * (real n * r2 ^ n)) + C * r2 ^ Suc n"
      by linarith
    also have "\<dots> = \<bar>x 0\<bar> * r2 ^ Suc n + C * (real (Suc n) * r2 ^ Suc n)"
      by (simp add: algebra_simps)
    finally show ?case .
  qed
  have "(\<lambda>n. r2 ^ n) \<longlonglongrightarrow> 0"
    using r2 by (intro LIMSEQ_realpow_zero) simp_all
  then have a: "(\<lambda>n. \<bar>x 0\<bar> * r2 ^ n) \<longlonglongrightarrow> 0"
    by (rule tendsto_mult_right_zero)
  have "(\<lambda>n. real n * r2 ^ n) \<longlonglongrightarrow> 0"
    using r2 by (intro powser_times_n_limit_0) simp
  then have "(\<lambda>n. C * (real n * r2 ^ n)) \<longlonglongrightarrow> 0"
    by (rule tendsto_mult_right_zero)
  with a have "(\<lambda>n. \<bar>x 0\<bar> * r2 ^ n + C * (real n * r2 ^ n)) \<longlonglongrightarrow> 0 + 0"
    by (rule tendsto_add)
  then have lim: "(\<lambda>n. \<bar>x 0\<bar> * r2 ^ n + C * (real n * r2 ^ n)) \<longlonglongrightarrow> 0"
    by simp
  have "(\<lambda>n. \<bar>x n\<bar>) \<longlonglongrightarrow> 0"
  proof (rule tendsto_sandwich)
    show "\<forall>\<^sub>F n in sequentially. 0 \<le> \<bar>x n\<bar>"
      by simp
    show "\<forall>\<^sub>F n in sequentially. \<bar>x n\<bar> \<le> \<bar>x 0\<bar> * r2 ^ n + C * (real n * r2 ^ n)"
      by (rule always_eventually, rule allI, rule bound)
    show "(\<lambda>n. 0::real) \<longlonglongrightarrow> 0"
      by (rule tendsto_const)
    show "(\<lambda>n. \<bar>x 0\<bar> * r2 ^ n + C * (real n * r2 ^ n)) \<longlonglongrightarrow> 0"
      by (rule lim)
  qed
  then show ?thesis
    by (simp add: tendsto_rabs_zero_iff)
qed

lemma linear_recurrence_tendsto_zero:
  fixes x :: "nat \<Rightarrow> real"
  assumes "\<And>n. x (Suc (Suc n)) = P * x (Suc n) - Q * x n"
    and "0 \<le> Q" "Q < 1" "0 < P" "P < 1 + Q"
  shows "x \<longlonglongrightarrow> 0"
proof (cases "P\<^sup>2 < 4 * Q")
  case True
  with assms(1-3) show ?thesis
    by (rule linear_recurrence_oscillating)
next
  case False
  then have "4 * Q \<le> P\<^sup>2"
    by simp
  with assms(1,2,4,5,3) show ?thesis
    by (rule linear_recurrence_overdamped)
qed

section \<open>Uniform fields\<close>

lemma uniformHeights_fst_Suc:
  "fst (uniformHeights a d p c (Suc n)) = snd (uniformHeights a d p c n)"
  by (simp add: split_beta)

lemma uniformHeights_recurrence:
  "snd (uniformHeights a d p c (Suc (Suc n))) =
     d * (1 + a) * snd (uniformHeights a d p c (Suc n)) - d * a * snd (uniformHeights a d p c n)"
proof -
  have "snd (uniformHeights a d p c (Suc (Suc n))) =
      mix (snd (uniformHeights a d p c (Suc n)))
          (2 * snd (uniformHeights a d p c (Suc n)) - fst (uniformHeights a d p c (Suc n))) a * d"
    by (simp add: split_beta)
  then show ?thesis
    unfolding uniformHeights_fst_Suc by (simp add: mix_def algebra_simps)
qed

lemma uniformHeights_tendsto_zero:
  assumes "0 \<le> a" "a \<le> 1" "0 < d" "d < 1"
  shows "(\<lambda>n. snd (uniformHeights a d p c n)) \<longlonglongrightarrow> 0"
proof (rule linear_recurrence_tendsto_zero)
  show "snd (uniformHeights a d p c (Suc (Suc n))) =
     d * (1 + a) * snd (uniformHeights a d p c (Suc n)) - d * a * snd (uniformHeights a d p c n)" for n
    by (rule uniformHeights_recurrence)
  show "0 \<le> d * a"
    using assms by simp
  have "d * a \<le> d * 1"
    using assms by (intro mult_left_mono) simp_all
  then show "d * a < 1"
    using assms(4) by linarith
  show "0 < d * (1 + a)"
    using assms by simp
  show "d * (1 + a) < 1 + d * a"
    using assms by (simp add: algebra_simps)
qed

lemma uniformHeights_no_viscosity: "snd (uniformHeights 0 d v v n) = v * d ^ n"
  by (induction n) (simp_all add: split_beta mix_def)

lemma uniformBuffers_step:
  assumes "uniformBuffers s p c"
  shows "uniformBuffers (useFrame st vp s) c (mix c (2 * c - p) (viscosity st) * decay st)"
proof -
  from assms have q: "quadMeshRef s" and k: "pingPongRef s < 3"
    and v: "pointerVelocity s \<le> 0.0001"
    and prv: "uniformField (renderTargets s ((pingPongRef s + 2) mod 3)) p"
    and cur: "uniformField (renderTargets s (pingPongRef s)) c"
    by (simp_all add: uniformBuffers_def)
  let ?nx = "(pingPongRef s + 1) mod 3"
  have wrap: "(?nx + 2) mod 3 = pingPongRef s" and apart: "pingPongRef s \<noteq> ?nx"
    using k by presburger+
  have new: "uniformField (renderTargets (useFrame st vp s) ?nx)
               (mix c (2 * c - p) (viscosity st) * decay st)"
    unfolding uniformField_def using uniform_step [OF q v cur prv, of st vp] by simp
  have old: "renderTargets (useFrame st vp s) (pingPongRef s) = renderTargets s (pingPongRef s)"
    using apart by (simp add: useFrame_sel q)
  show ?thesis
    unfolding uniformBuffers_def useFrame_sel(1) [OF q] wrap
    using q new old cur by (simp add: useFrame_sel(8) pointerVelocity_after_frame)
qed

lemma uniformBuffers_funpow:
  assumes "uniformBuffers s p c"
  shows "uniformBuffers ((useFrame st vp ^^ n) s)
           (fst (uniformHeights (viscosity st) (decay st) p c n))
           (snd (uniformHeights (viscosity st) (decay st) p c n))"
proof (induction n)
  case 0
  show ?case using assms by simp
next
  case (Suc n)
  from uniformBuffers_step [OF Suc.IH, of st vp] show ?case
    by (simp add: split_beta)
qed

lemma raisedState_uniform: "uniformBuffers raisedState 1 1"
  by (simp add: uniformBuffers_def raisedState_def mountState_def pointerVelocity_def uniformField_def)

lemma raisedState_heights:
  "vec4_r (renderTargets ((useFrame st vp ^^ n) raisedState)
             (pingPongRef ((useFrame st vp ^^ n) raisedState)) 0 0)
     = snd (uniformHeights (viscosity st) (decay st) 1 1 n)"
  using uniformBuffers_funpow [OF raisedState_uniform, where st = st and vp = vp and n = n]
  by (simp add: uniformBuffers_def uniformField_def RESOLUTION_def)

section \<open>The image shader over a flat field, and its sample points\<close>

lemma normalize_up: "normalize (Vec3 0 0 1) = Vec3 0 0 1"
  by (simp add: normalize_def length3_def)

lemma fragNormal_flat:
  assumes "\<forall>p. vec4_r (uDisplacement u p) = c"
  shows "fragNormal u vScreenUv = Vec3 0 0 1"
  by (simp add: fragNormal_def calculateNormal_def Let_def texture2D_def assms normalize_up)

lemma rippleMask_flat:
  assumes "\<forall>p. vec4_r (uDisplacement u p) = c"
  shows "rippleMask u vScreenUv = 0"
  by (simp add: rippleMask_def Let_def fragNormal_flat [OF assms] length2_def smoothstep_def clamp_def)

lemma specular_flat:
  assumes "\<forall>p. vec4_r (uDisplacement u p) = c"
  shows "specular u vScreenUv = 0"
  by (simp add: specular_def Let_def rippleMask_flat [OF assms])

lemma fresnel_flat:
  assumes "\<forall>p. vec4_r (uDisplacement u p) = c"
  shows "fresnel u vScreenUv = 0"
  by (simp add: fresnel_def Let_def fragNormal_flat [OF assms] dot_def pow_def)

lemma refractedColor_flat:
  assumes "\<forall>p. vec4_r (uDisplacement u p) = c"
  shows "refractedColor u vUv vScreenUv =
     (let p = clamp2 (coverUv vUv (uImageAspect u) (uPlaneAspect u)) 0.001 0.999
      in Vec3 (vec4_r (texture2D (uTexture u) p)) (vec4_g (texture2D (uTexture u) p))
              (vec4_b (texture2D (uTexture u) p)))"
proof -
  have a: "aberrationAmount u vScreenUv = 0"
    by (simp add: aberrationAmount_def Let_def fragNormal_flat [OF assms])
  have d: "distortedUv u vUv vScreenUv = clamp2 (coverUv vUv (uImageAspect u) (uPlaneAspect u)) 0.001 0.999"
    by (simp add: distortedUv_def Let_def fragNormal_flat [OF assms] add2_def)
  show ?thesis
    by (simp add: refractedColor_def sampleR_def sampleG_def sampleB_def a d Let_def add2_def sub2_def)
qed

lemma imageFragmentShader_flat:
  assumes "\<forall>p. vec4_r (uDisplacement u p) = c"
  shows "imageFragmentShader u vUv vScreenUv =
     (let color = refractedColor u vUv vScreenUv
      in Vec4 (vec3_x color) (vec3_y color) (vec3_z color) 1)"
  by (simp add: imageFragmentShader_def Let_def specular_flat [OF assms] rippleMask_flat [OF assms]
      add3_def splat3_def)

lemma clamp_inside: "lo \<le> x \<Longrightarrow> x \<le> hi \<Longrightarrow> clamp x lo hi = x"
  by (simp add: clamp_def)

lemma stillMaterial_flat: "\<forall>p. vec4_r (uDisplacement stillMaterial p) = 0"
  by (simp add: stillMaterial_def texture_uniform_r clearedTarget_def)

lemma clamp_bounds: "lo \<le> hi \<Longrightarrow> lo \<le> clamp x lo hi \<and> clamp x lo hi \<le> hi"
  by (simp add: clamp_def)

lemma distortedUv_bounds:
  "0.001 \<le> vec2_x (distortedUv u vUv vScreenUv) \<and> vec2_x (distortedUv u vUv vScreenUv) \<le> 0.999
   \<and> 0.001 \<le> vec2_y (distortedUv u vUv vScreenUv) \<and> vec2_y (distortedUv u vUv vScreenUv) \<le> 0.999"
  using clamp_bounds [of "0.001" "0.999"]
  by (simp add: distortedUv_def Let_def clamp2_def)

text \<open>The components of a normalised \<open>(a, b, 1)\<close>: \<open>|x| + |y|\<close> stays below \<open>sqrt 2\<close>.\<close>

lemma normalize_xy_bound:
  "\<bar>vec3_x (normalize (Vec3 a b 1))\<bar> + \<bar>vec3_y (normalize (Vec3 a b 1))\<bar> \<le> sqrt 2"
proof -
  let ?n = "sqrt (a * a + b * b + 1 * 1)"
  have n: "0 < ?n"
    by (intro real_sqrt_gt_zero add_nonneg_pos add_nonneg_nonneg) simp_all
  have "(\<bar>a\<bar> + \<bar>b\<bar>)\<^sup>2 \<le> 2 * (a * a + b * b + 1 * 1)"
    using sum_squares_bound [of "\<bar>a\<bar>" "\<bar>b\<bar>"]
    by (simp add: power2_eq_square algebra_simps)
  then have "sqrt ((\<bar>a\<bar> + \<bar>b\<bar>)\<^sup>2) \<le> sqrt (2 * (a * a + b * b + 1 * 1))"
    by (rule real_sqrt_le_mono)
  moreover have "sqrt ((\<bar>a\<bar> + \<bar>b\<bar>)\<^sup>2) = \<bar>a\<bar> + \<bar>b\<bar>"
    by simp
  moreover have "sqrt (2 * (a * a + b * b + 1 * 1)) = sqrt 2 * ?n"
    by (rule real_sqrt_mult)
  ultimately have "\<bar>a\<bar> + \<bar>b\<bar> \<le> sqrt 2 * ?n"
    by simp
  then have "(\<bar>a\<bar> + \<bar>b\<bar>) / ?n \<le> sqrt 2"
    using n by (simp add: pos_divide_le_eq)
  then show ?thesis
    using n by (simp add: normalize_def length3_def add_divide_distrib abs_divide del: mult_1_right)
qed

lemma aberrationAmount_bounds:
  assumes "0 \<le> uAberration u"
  shows "0 \<le> aberrationAmount u vScreenUv \<and> aberrationAmount u vScreenUv \<le> uAberration u * sqrt 2"
proof -
  obtain a b where n: "fragNormal u vScreenUv = normalize (Vec3 a b 1)"
    by (simp add: fragNormal_def calculateNormal_def Let_def)
  have "\<bar>vec3_x (fragNormal u vScreenUv)\<bar> + \<bar>vec3_y (fragNormal u vScreenUv)\<bar> \<le> sqrt 2"
    unfolding n by (rule normalize_xy_bound)
  then show ?thesis
    using assms by (simp add: aberrationAmount_def Let_def mult_left_mono)
qed

lemma slopeMaterial_normal: "fragNormal slopeMaterial (texelCentre 5 5) = Vec3 (3 / 5) 0 (4 / 5)"
proof -
  have i: "(5::nat) < RESOLUTION"
    by (simp add: RESOLUTION_def)
  have r: "uImgResolution slopeMaterial = Vec2 (real RESOLUTION) (real RESOLUTION)"
    and d: "uDisplacement slopeMaterial = texture slopeTarget"
    by (simp_all add: slopeMaterial_def stillMaterial_def)
  have "sqrt ((5 / 4)\<^sup>2) = 5 / 4"
    by (simp only: real_sqrt_abs)
  then have s: "sqrt (25 / 16) = 5 / 4"
    by (simp add: power2_eq_square)
  have "normalize (Vec3 (3 / 4) 0 1) = Vec3 (3 / 5) 0 (4 / 5)"
    by (simp add: normalize_def length3_def s)
  then show ?thesis
    unfolding fragNormal_def calculateNormal_cell [OF i i r d]
    by (simp add: slopeTarget_def RESOLUTION_def)
qed

section \<open>The simulation step\<close>

text \<open>
  C1. One frame computes, for every cell \<open>(i, j)\<close> of the grid, the value of
  \<open>wave\<close> before the ripple is added from the current and previous buffers as
  the specification words it: the average of the four neighbours in the current
  buffer (the edge cell repeated at the border), the wave equation
  \<open>2 * neighborAvg - prev\<close>, the viscosity mix with the current value, the decay.
  The value written to the next buffer for the cell is this value, plus the
  ripple when the sampled velocity exceeds 0.0001.
\<close>

theorem simulation_step_cell:
  assumes "quadMeshRef s" "i < RESOLUTION" "j < RESOLUTION"
    and "uResolution (fluidUpdateMaterial s) = Vec2 (real RESOLUTION) (real RESOLUTION)"
  shows "dampedWave (frameMaterial st s) (texelCentre i j) =
           spec_wave (vec4_r (renderTargets s (pingPongRef s) (i - 1) j))
                     (vec4_r (renderTargets s (pingPongRef s) (min (i + 1) (RESOLUTION - 1)) j))
                     (vec4_r (renderTargets s (pingPongRef s) i (min (j + 1) (RESOLUTION - 1))))
                     (vec4_r (renderTargets s (pingPongRef s) i (j - 1)))
                     (vec4_r (renderTargets s (pingPongRef s) i j))
                     (vec4_r (renderTargets s ((pingPongRef s + 2) mod 3) i j))
                     (viscosity st) (decay st)
       \<and> vec4_r (renderTargets (useFrame st vp s) ((pingPongRef s + 1) mod 3) i j) =
           dampedWave (frameMaterial st s) (texelCentre i j)
           + (if pointerVelocity s > 0.0001 then finalRipple (frameMaterial st s) (texelCentre i j) else 0)"
proof -
  have "dampedWave (frameMaterial st s) (texelCentre i j) =
           spec_wave (vec4_r (renderTargets s (pingPongRef s) (i - 1) j))
                     (vec4_r (renderTargets s (pingPongRef s) (min (i + 1) (RESOLUTION - 1)) j))
                     (vec4_r (renderTargets s (pingPongRef s) i (min (j + 1) (RESOLUTION - 1))))
                     (vec4_r (renderTargets s (pingPongRef s) i (j - 1)))
                     (vec4_r (renderTargets s (pingPongRef s) i j))
                     (vec4_r (renderTargets s ((pingPongRef s + 2) mod 3) i j))
                     (uViscosity (frameMaterial st s)) (uDecay (frameMaterial st s))"
    by (rule dampedWave_cell) (simp_all add: assms frameMaterial_sel)
  moreover have "vec4_r (renderTargets (useFrame st vp s) ((pingPongRef s + 1) mod 3) i j) =
           dampedWave (frameMaterial st s) (texelCentre i j)
           + (if pointerVelocity s > 0.0001 then finalRipple (frameMaterial st s) (texelCentre i j) else 0)"
    by (simp add: useFrame_sel assms(1) render_def fluidUpdateShader_r frameMaterial_sel)
  ultimately show ?thesis
    by (simp add: frameMaterial_sel)
qed

theorem simulation_step_cell_witness:
  "quadMeshRef bumpState \<and> (4::nat) < RESOLUTION
   \<and> uResolution (fluidUpdateMaterial bumpState) = Vec2 (real RESOLUTION) (real RESOLUTION)
   \<and> dampedWave (frameMaterial rippleSettings bumpState) (texelCentre 4 4) = 4361 / 10000
   \<and> vec4_r (renderTargets (useFrame rippleSettings (Vec2 16 9) bumpState) 1 4 4) = 4361 / 10000"
  using simulation_step_cell [of bumpState 4 4 rippleSettings "Vec2 16 9"]
  by (simp add: bumpState_def mountState_def rippleSettings_def bumpTarget_def clearedTarget_def
      RESOLUTION_def spec_wave_def mix_def pointerVelocity_def)

text \<open>
  C3. When the velocity sampled by the frame does not exceed 0.0001 (in
  particular when it is 0), no ripple is added: every cell of the next buffer
  receives the damped-wave update alone.
\<close>

theorem no_injection_below_threshold:
  assumes "quadMeshRef s" "i < RESOLUTION" "j < RESOLUTION"
    and "uResolution (fluidUpdateMaterial s) = Vec2 (real RESOLUTION) (real RESOLUTION)"
    and "pointerVelocity s \<le> 0.0001"
  shows "vec4_r (renderTargets (useFrame st vp s) ((pingPongRef s + 1) mod 3) i j) =
           spec_wave (vec4_r (renderTargets s (pingPongRef s) (i - 1) j))
                     (vec4_r (renderTargets s (pingPongRef s) (min (i + 1) (RESOLUTION - 1)) j))
                     (vec4_r (renderTargets s (pingPongRef s) i (min (j + 1) (RESOLUTION - 1))))
                     (vec4_r (renderTargets s (pingPongRef s) i (j - 1)))
                     (vec4_r (renderTargets s (pingPongRef s) i j))
                     (vec4_r (renderTargets s ((pingPongRef s + 2) mod 3) i j))
                     (viscosity st) (decay st)"
proof -
  have "renderTargets (useFrame st vp s) ((pingPongRef s + 1) mod 3) i j =
          fluidUpdateShader (frameMaterial st s) (texelCentre i j)"
    by (simp add: useFrame_sel assms(1) render_def)
  then have "vec4_r (renderTargets (useFrame st vp s) ((pingPongRef s + 1) mod 3) i j) =
          dampedWave (frameMaterial st s) (texelCentre i j)"
    using assms(5) by (simp add: fluidUpdateShader_still frameMaterial_sel)
  also have "\<dots> =
           spec_wave (vec4_r (renderTargets s (pingPongRef s) (i - 1) j))
                     (vec4_r (renderTargets s (pingPongRef s) (min (i + 1) (RESOLUTION - 1)) j))
                     (vec4_r (renderTargets s (pingPongRef s) i (min (j + 1) (RESOLUTION - 1))))
                     (vec4_r (renderTargets s (pingPongRef s) i (j - 1)))
                     (vec4_r (renderTargets s (pingPongRef s) i j))
                     (vec4_r (renderTargets s ((pingPongRef s + 2) mod 3) i j))
                     (uViscosity (frameMaterial st s)) (uDecay (frameMaterial st s))"
    by (rule dampedWave_cell) (simp_all add: assms frameMaterial_sel)
  finally show ?thesis
    by (simp add: frameMaterial_sel)
qed

theorem no_injection_below_threshold_witness:
  "quadMeshRef creepState \<and> (4::nat) < RESOLUTION
   \<and> uResolution (fluidUpdateMaterial creepState) = Vec2 (real RESOLUTION) (real RESOLUTION)
   \<and> pointerVelocity creepState \<le> 0.0001
   \<and> vec4_r (renderTargets (useFrame rippleSettings (Vec2 16 9) creepState) 1 4 4) = 4361 / 10000"
  using no_injection_below_threshold [of creepState 4 4 rippleSettings "Vec2 16 9"]
  by (simp add: creepState_velocity)
     (simp add: creepState_def mountState_def rippleSettings_def bumpTarget_def clearedTarget_def
      RESOLUTION_def spec_wave_def mix_def)

text \<open>
  C10. The all-zero field is a fixed point of the step without injection: when
  the three buffers are zero and the sampled velocity does not exceed 0.0001, a
  frame writes 0 to every cell of the next buffer, whatever the viscosity and
  the decay; and with no pointer event between frames the three buffers stay
  zero after any number of frames.
\<close>

theorem zero_field_fixed_point:
  assumes "quadMeshRef s" "pingPongRef s < 3" "pointerVelocity s \<le> 0.0001"
    and "\<forall>k<3. uniformField (renderTargets s k) 0"
  shows "(\<forall>i j. vec4_r (renderTargets (useFrame st vp s) ((pingPongRef s + 1) mod 3) i j) = 0)
       \<and> (\<forall>n. \<forall>k<3. \<forall>i<RESOLUTION. \<forall>j<RESOLUTION.
             vec4_r (renderTargets ((useFrame st vp ^^ n) s) k i j) = 0)"
proof -
  have cur: "uniformField (renderTargets s (pingPongRef s)) 0"
    using assms(2,4) by simp
  have prv: "uniformField (renderTargets s ((pingPongRef s + 2) mod 3)) 0"
    using assms(4) by simp
  have one: "vec4_r (renderTargets (useFrame st vp s) ((pingPongRef s + 1) mod 3) i j) = 0" for i j
    using uniform_step [OF assms(1,3) cur prv, of st vp i j] by (simp add: mix_def)
  have "stillAndZero s"
    using assms by (simp add: stillAndZero_def)
  then have "stillAndZero ((useFrame st vp ^^ n) s)" for n
    by (rule stillAndZero_funpow)
  then have "\<forall>k<3. uniformField (renderTargets ((useFrame st vp ^^ n) s) k) 0" for n
    by (simp add: stillAndZero_def)
  with one show ?thesis
    by (simp add: uniformField_def)
qed

theorem zero_field_fixed_point_witness:
  "quadMeshRef (mountState rippleSettings (Vec2 16 9) [])
   \<and> pingPongRef (mountState rippleSettings (Vec2 16 9) []) < 3
   \<and> pointerVelocity (mountState rippleSettings (Vec2 16 9) []) \<le> 0.0001
   \<and> renderTargets (mountState rippleSettings (Vec2 16 9) []) = (\<lambda>k i j. Vec4 0 0 0 0)
   \<and> vec4_r (renderTargets (useFrame rippleSettings (Vec2 16 9)
                 (mountState rippleSettings (Vec2 16 9) [])) 1 7 9) = 0
   \<and> vec4_r (renderTargets ((useFrame rippleSettings (Vec2 16 9) ^^ 100)
                 (mountState rippleSettings (Vec2 16 9) [])) 2 7 9) = 0"
proof -
  let ?s = "mountState rippleSettings (Vec2 16 9) []"
  have h: "quadMeshRef ?s" "pingPongRef ?s < 3" "pointerVelocity ?s \<le> 0.0001"
    "\<forall>k<3. uniformField (renderTargets ?s k) 0"
    by (simp_all add: mountState_def pointerVelocity_def uniformField_def clearedTarget_def)
  have p: "(pingPongRef ?s + 1) mod 3 = 1"
    by (simp add: mountState_def)
  have "(7::nat) < RESOLUTION" "(9::nat) < RESOLUTION"
    by (simp_all add: RESOLUTION_def)
  moreover have "renderTargets ?s = (\<lambda>k i j. Vec4 0 0 0 0)"
    by (simp add: mountState_def clearedTarget_def)
  ultimately show ?thesis
    using zero_field_fixed_point [OF h, of rippleSettings "Vec2 16 9"] h p by simp
qed

section \<open>Decay of a uniform field\<close>

text \<open>
  C4, as the code has it. From current and previous buffers that hold the same
  height \<open>v\<close> in every cell, and without injection, one frame leaves the
  height \<open>v * decay\<close> in every cell of the next buffer, below \<open>v\<close> when
  \<open>v > 0\<close>. Under further frames the field stays uniform; its height follows
  \<open>u (n + 2) = decay * ((1 + viscosity) * u (n + 1) - viscosity * u n)\<close>, because
  the previous buffer then differs from the current one, and it tends to 0 for
  every viscosity in \<open>[0, 1]\<close> and decay in \<open>(0, 1)\<close>. With viscosity 0 the
  height after \<open>n\<close> frames is \<open>v * decay ^ n\<close>.
\<close>

theorem uniform_field_decays:
  assumes "quadMeshRef s" "pingPongRef s < 3" "pointerVelocity s \<le> 0.0001"
    and "uniformField (renderTargets s (pingPongRef s)) v"
    and "uniformField (renderTargets s ((pingPongRef s + 2) mod 3)) v"
    and "0 \<le> viscosity st" "viscosity st \<le> 1" "0 < decay st" "decay st < 1"
  shows "(\<forall>i j. vec4_r (renderTargets (useFrame st vp s) ((pingPongRef s + 1) mod 3) i j) = v * decay st)
       \<and> (0 < v \<longrightarrow> v * decay st < v)
       \<and> (\<forall>n. \<forall>i<RESOLUTION. \<forall>j<RESOLUTION.
             vec4_r (renderTargets ((useFrame st vp ^^ n) s) (pingPongRef ((useFrame st vp ^^ n) s)) i j)
               = snd (uniformHeights (viscosity st) (decay st) v v n))
       \<and> (\<forall>n. snd (uniformHeights (viscosity st) (decay st) v v (Suc (Suc n))) =
             decay st * ((1 + viscosity st) * snd (uniformHeights (viscosity st) (decay st) v v (Suc n))
                         - viscosity st * snd (uniformHeights (viscosity st) (decay st) v v n)))
       \<and> (\<lambda>n. snd (uniformHeights (viscosity st) (decay st) v v n)) \<longlonglongrightarrow> 0
       \<and> (viscosity st = 0 \<longrightarrow> (\<forall>n. snd (uniformHeights (viscosity st) (decay st) v v n) = v * decay st ^ n))"
proof -
  have one: "vec4_r (renderTargets (useFrame st vp s) ((pingPongRef s + 1) mod 3) i j) = v * decay st" for i j
    using uniform_step [OF assms(1,3,4,5), of st vp i j] by (simp add: mix_def algebra_simps)
  have "uniformBuffers s v v"
    using assms(1-5) by (simp add: uniformBuffers_def)
  then have "uniformBuffers ((useFrame st vp ^^ n) s)
           (fst (uniformHeights (viscosity st) (decay st) v v n))
           (snd (uniformHeights (viscosity st) (decay st) v v n))" for n
    by (rule uniformBuffers_funpow)
  then have many: "\<forall>i<RESOLUTION. \<forall>j<RESOLUTION.
             vec4_r (renderTargets ((useFrame st vp ^^ n) s) (pingPongRef ((useFrame st vp ^^ n) s)) i j)
               = snd (uniformHeights (viscosity st) (decay st) v v n)" for n
    by (simp add: uniformBuffers_def uniformField_def)
  have rec: "snd (uniformHeights (viscosity st) (decay st) v v (Suc (Suc n))) =
             decay st * ((1 + viscosity st) * snd (uniformHeights (viscosity st) (decay st) v v (Suc n))
                         - viscosity st * snd (uniformHeights (viscosity st) (decay st) v v n))" for n
    unfolding uniformHeights_recurrence by (simp add: algebra_simps)
  have lim: "(\<lambda>n. snd (uniformHeights (viscosity st) (decay st) v v n)) \<longlonglongrightarrow> 0"
    using assms(6-9) by (rule uniformHeights_tendsto_zero)
  have less: "v * decay st < v" if "0 < v"
    using that assms(9) by simp
  show ?thesis
    using one many rec lim less by (simp add: uniformHeights_no_viscosity)
qed

theorem uniform_field_decays_witness:
  "quadMeshRef raisedState \<and> pingPongRef raisedState < 3 \<and> pointerVelocity raisedState \<le> 0.0001
   \<and> renderTargets raisedState = (\<lambda>k i j. Vec4 1 1 1 1)
   \<and> 0 \<le> viscosity rippleSettings \<and> viscosity rippleSettings \<le> 1
   \<and> 0 < decay rippleSettings \<and> decay rippleSettings < 1
   \<and> vec4_r (renderTargets (useFrame rippleSettings (Vec2 16 9) raisedState) 1 7 9) = 49 / 50
   \<and> vec4_r (renderTargets ((useFrame rippleSettings (Vec2 16 9) ^^ 2) raisedState)
               (pingPongRef ((useFrame rippleSettings (Vec2 16 9) ^^ 2) raisedState)) 7 9) = 235739 / 250000
   \<and> (\<lambda>n. snd (uniformHeights (viscosity rippleSettings) (decay rippleSettings) 1 1 n)) \<longlonglongrightarrow> 0"
proof -
  have h: "quadMeshRef raisedState" "pingPongRef raisedState < 3" "pointerVelocity raisedState \<le> 0.0001"
    "uniformField (renderTargets raisedState (pingPongRef raisedState)) 1"
    "uniformField (renderTargets raisedState ((pingPongRef raisedState + 2) mod 3)) 1"
    by (simp_all add: raisedState_def mountState_def pointerVelocity_def uniformField_def)
  have g: "0 \<le> viscosity rippleSettings" "viscosity rippleSettings \<le> 1"
    "0 < decay rippleSettings" "decay rippleSettings < 1"
    by (simp_all add: rippleSettings_def)
  have p: "(pingPongRef raisedState + 1) mod 3 = 1"
    by (simp add: raisedState_def mountState_def)
  have r: "renderTargets raisedState = (\<lambda>k i j. Vec4 1 1 1 1)"
    by (simp add: raisedState_def)
  have i: "(7::nat) < RESOLUTION" "(9::nat) < RESOLUTION"
    by (simp_all add: RESOLUTION_def)
  have u: "snd (uniformHeights (viscosity rippleSettings) (decay rippleSettings) 1 1 2) = 235739 / 250000"
    by (simp add: eval_nat_numeral mix_def rippleSettings_def)
  note t = uniform_field_decays [OF h g, of "Vec2 16 9"]
  from t have a: "vec4_r (renderTargets (useFrame rippleSettings (Vec2 16 9) raisedState) 1 7 9) = 49 / 50"
    unfolding p by (simp add: rippleSettings_def)
  from t i have b: "vec4_r (renderTargets ((useFrame rippleSettings (Vec2 16 9) ^^ 2) raisedState)
               (pingPongRef ((useFrame rippleSettings (Vec2 16 9) ^^ 2) raisedState)) 7 9) = 235739 / 250000"
    unfolding u [symmetric] by blast
  from t have c: "(\<lambda>n. snd (uniformHeights (viscosity rippleSettings) (decay rippleSettings) 1 1 n))
      \<longlonglongrightarrow> 0"
    by blast
  show ?thesis
    by (intro conjI h(1-3) r g a b c)
qed

text \<open>
  C4 as stated fails: the height does not decrease at every frame. With
  viscosity 1 and decay 1/2, from height 1, the heights after frames 1 to 5 are
  1/2, 0, -1/4, -1/4, -1/8: the fifth frame raises the field.
\<close>

theorem uniform_value_rises_counterexample:
  "0 \<le> viscosity overshootSettings \<and> viscosity overshootSettings \<le> 1
   \<and> 0 < decay overshootSettings \<and> decay overshootSettings < 1
   \<and> vec4_r (renderTargets raisedState (pingPongRef raisedState) 0 0) = 1
   \<and> vec4_r (renderTargets ((useFrame overshootSettings (Vec2 16 9) ^^ 4) raisedState)
               (pingPongRef ((useFrame overshootSettings (Vec2 16 9) ^^ 4) raisedState)) 0 0) = - 1 / 4
   \<and> vec4_r (renderTargets ((useFrame overshootSettings (Vec2 16 9) ^^ 5) raisedState)
               (pingPongRef ((useFrame overshootSettings (Vec2 16 9) ^^ 5) raisedState)) 0 0) = - 1 / 8"
proof -
  have "snd (uniformHeights 1 (1 / 2) 1 1 4) = - 1 / 4" "snd (uniformHeights 1 (1 / 2) 1 1 5) = - 1 / 8"
    by (simp_all add: eval_nat_numeral mix_def)
  then show ?thesis
    unfolding raisedState_heights
    by (simp add: overshootSettings_def rippleSettings_def)
       (simp add: raisedState_def mountState_def)
qed

section \<open>Buffer rotation\<close>

text \<open>
  C2. With \<open>prev = (c + 2) mod 3\<close>, \<open>current = c\<close> and \<open>next = (c + 1) mod 3\<close>,
  a frame makes the buffer that held the next role the current one, and after
  three frames from any index in \<open>{0, 1, 2}\<close> the three roles are back on the
  buffers they started on.
\<close>

theorem buffer_roles_rotate:
  assumes "quadMeshRef s" "pingPongRef s < 3"
  shows "pingPongRef (useFrame st vp s) = (pingPongRef s + 1) mod 3
       \<and> pingPongRef ((useFrame st vp ^^ 3) s) = pingPongRef s
       \<and> (pingPongRef ((useFrame st vp ^^ 3) s) + 2) mod 3 = (pingPongRef s + 2) mod 3
       \<and> (pingPongRef ((useFrame st vp ^^ 3) s) + 1) mod 3 = (pingPongRef s + 1) mod 3"
proof -
  have q1: "quadMeshRef (useFrame st vp s)"
    using assms(1) by (simp add: useFrame_sel)
  have q2: "quadMeshRef (useFrame st vp (useFrame st vp s))"
    using q1 by (simp add: useFrame_sel)
  have "pingPongRef ((useFrame st vp ^^ 3) s) = (((pingPongRef s + 1) mod 3 + 1) mod 3 + 1) mod 3"
    unfolding funpow_3 by (simp only: useFrame_sel(1) assms(1) q1 q2)
  also have "\<dots> = pingPongRef s"
    using assms(2) by presburger
  finally show ?thesis
    by (simp add: useFrame_sel assms(1))
qed

theorem buffer_roles_rotate_witness:
  "quadMeshRef (mountState rippleSettings (Vec2 16 9) [])
   \<and> pingPongRef (mountState rippleSettings (Vec2 16 9) []) < 3
   \<and> pingPongRef (useFrame rippleSettings (Vec2 16 9) (mountState rippleSettings (Vec2 16 9) [])) = 1
   \<and> pingPongRef ((useFrame rippleSettings (Vec2 16 9) ^^ 3) (mountState rippleSettings (Vec2 16 9) [])) = 0"
  using buffer_roles_rotate [of "mountState rippleSettings (Vec2 16 9) []" rippleSettings "Vec2 16 9"]
  by (simp add: mountState_def)

section \<open>Pointer velocity\<close>

text \<open>
  C8. In a frame where the pointer is outside the canvas the sampled velocity
  is exactly 0, whatever the distance between the stored current and previous
  positions: the value kept in the velocity ref and the uniform handed to the
  shader are both 0.
\<close>

theorem velocity_zero_outside:
  assumes "quadMeshRef s" "\<not> isPointerInsideRef s"
  shows "pointerVelocity s = 0
       \<and> mouseVelocityRef (useFrame st vp s) = 0
       \<and> uMouseVelocity (fluidUpdateMaterial (useFrame st vp s)) = 0"
  using assms by (simp add: useFrame_sel frameMaterial_sel pointerVelocity_def)

theorem velocity_zero_outside_witness:
  "quadMeshRef outsideState \<and> \<not> isPointerInsideRef outsideState
   \<and> mouseRef outsideState = Vec2 (9 / 10) (9 / 10) \<and> prevMouseRef outsideState = Vec2 (1 / 2) (1 / 2)
   \<and> mouseVelocityRef (useFrame rippleSettings (Vec2 16 9) outsideState) = 0
   \<and> uMouseVelocity (fluidUpdateMaterial (useFrame rippleSettings (Vec2 16 9) outsideState)) = 0"
proof -
  have h: "quadMeshRef outsideState" "\<not> isPointerInsideRef outsideState"
    "mouseRef outsideState = Vec2 (9 / 10) (9 / 10)" "prevMouseRef outsideState = Vec2 (1 / 2) (1 / 2)"
    by (simp_all add: outsideState_def updatePointer_def canvasRect_def mountState_def Let_def)
  from velocity_zero_outside [OF h(1,2), of rippleSettings "Vec2 16 9"] h show ?thesis
    by simp
qed

section \<open>Settings and uniforms\<close>

text \<open>
  C6, as the code has it. A frame copies every setting into its uniform as it
  is: viscosity, decay, radius and intensity into the fluid material, distortion
  strength, aberration, light intensity and specular power into every image
  material. Nothing clamps a value into a domain and nothing fails.
\<close>

theorem settings_reach_uniforms_unchanged:
  assumes "quadMeshRef s"
  shows "uViscosity (fluidUpdateMaterial (useFrame st vp s)) = viscosity st
       \<and> uDecay (fluidUpdateMaterial (useFrame st vp s)) = decay st
       \<and> uRadius (fluidUpdateMaterial (useFrame st vp s)) = scale st
       \<and> uIntensity (fluidUpdateMaterial (useFrame st vp s)) = intensity st
       \<and> (\<forall>m \<in> set (imageMaterials (useFrame st vp s)).
             uDistortionStrength m = distortionStrength st
           \<and> uAberration m = aberration st
           \<and> uLightIntensity m = lightIntensity st
           \<and> uSpecularPower m = specularPower st)"
  using assms by (auto simp add: useFrame_sel frameMaterial_sel updateImageMaterial_sel)

theorem settings_reach_uniforms_unchanged_witness:
  "quadMeshRef (mountState rippleSettings (Vec2 16 9) [gradientImage])
   \<and> uViscosity (fluidUpdateMaterial (useFrame wildSettings (Vec2 16 9)
        (mountState rippleSettings (Vec2 16 9) [gradientImage]))) = 2
   \<and> uRadius (fluidUpdateMaterial (useFrame wildSettings (Vec2 16 9)
        (mountState rippleSettings (Vec2 16 9) [gradientImage]))) = - 1
   \<and> length (imageMaterials (useFrame wildSettings (Vec2 16 9)
        (mountState rippleSettings (Vec2 16 9) [gradientImage]))) = 1
   \<and> uAberration (hd (imageMaterials (useFrame wildSettings (Vec2 16 9)
        (mountState rippleSettings (Vec2 16 9) [gradientImage])))) = 1 / 100"
proof -
  let ?s = "mountState rippleSettings (Vec2 16 9) [gradientImage]"
  have q: "quadMeshRef ?s"
    by (simp add: mountState_def)
  have l: "length (imageMaterials (useFrame wildSettings (Vec2 16 9) ?s)) = 1"
    by (simp add: useFrame_sel q) (simp add: mountState_def)
  then have "hd (imageMaterials (useFrame wildSettings (Vec2 16 9) ?s))
      \<in> set (imageMaterials (useFrame wildSettings (Vec2 16 9) ?s))"
    by (intro hd_in_set) auto
  with settings_reach_uniforms_unchanged [OF q, of wildSettings "Vec2 16 9"] q l show ?thesis
    by (simp add: wildSettings_def rippleSettings_def)
qed

text \<open>
  C6 as stated fails: with viscosity 2 and radius -1 in the settings, the
  uniforms the shader runs with are 2 and -1, outside \<open>[0, 1]\<close> and below 0. The
  cell right of the raised cell receives 49/50, where a viscosity clamped to 1
  would give 49/100.
\<close>

theorem viscosity_not_clamped_counterexample:
  "uViscosity (frameMaterial wildSettings bumpState) = 2
   \<and> \<not> (0 \<le> uViscosity (frameMaterial wildSettings bumpState)
        \<and> uViscosity (frameMaterial wildSettings bumpState) \<le> 1)
   \<and> uRadius (frameMaterial wildSettings bumpState) = - 1
   \<and> \<not> 0 \<le> uRadius (frameMaterial wildSettings bumpState)
   \<and> fluidUpdateMaterial (useFrame wildSettings (Vec2 16 9) bumpState) = frameMaterial wildSettings bumpState
   \<and> vec4_r (renderTargets (useFrame wildSettings (Vec2 16 9) bumpState) 1 4 4) = 49 / 50
   \<and> vec4_r (renderTargets (useFrame (wildSettings\<lparr>viscosity := 1\<rparr>) (Vec2 16 9) bumpState) 1 4 4) = 49 / 100"
proof -
  have q: "quadMeshRef bumpState"
    by (simp add: bumpState_def mountState_def)
  have v: "pointerVelocity bumpState \<le> 0.0001"
    by (simp add: pointerVelocity_def bumpState_def mountState_def)
  have r: "uResolution (frameMaterial st bumpState) = Vec2 (real RESOLUTION) (real RESOLUTION)" for st
    by (simp add: frameMaterial_sel) (simp add: bumpState_def mountState_def)
  have c: "uCurrentState (frameMaterial st bumpState) = texture bumpTarget"
    and p: "uPrevState (frameMaterial st bumpState) = texture clearedTarget" for st
    by (simp_all add: frameMaterial_sel) (simp_all add: bumpState_def mountState_def)
  have i: "(4::nat) < RESOLUTION"
    by (simp add: RESOLUTION_def)
  have w: "dampedWave (frameMaterial st bumpState) (texelCentre 4 4) = viscosity st / 2 * decay st" for st
    unfolding dampedWave_cell [OF i i r c p]
    by (simp add: spec_wave_def mix_def bumpTarget_def clearedTarget_def RESOLUTION_def frameMaterial_sel)
  have t: "vec4_r (renderTargets (useFrame st (Vec2 16 9) bumpState) 1 4 4)
      = dampedWave (frameMaterial st bumpState) (texelCentre 4 4)" for st
    using v by (simp add: useFrame_sel q render_def fluidUpdateShader_still frameMaterial_sel)
       (simp add: bumpState_def mountState_def render_def fluidUpdateShader_still frameMaterial_sel)
  show ?thesis
    unfolding t w
    by (simp add: frameMaterial_sel useFrame_sel q) (simp add: wildSettings_def rippleSettings_def)
qed

section \<open>Image compositing\<close>

text \<open>
  C7, as the code has it. Over a flat displacement field (the same height at
  every sample point) the normal is \<open>(0, 0, 1)\<close>, the ripple mask is 0, the
  specular and fresnel terms add nothing, and the fragment's colour is the
  refracted sample alone. That sample is the image at the cover-fit UV clamped
  into \<open>[0.001, 0.999]\<close>; it is the image at the cover-fit UV itself when the
  cover-fit UV lies in that range.
\<close>

theorem flat_field_no_lighting:
  assumes "\<forall>p. vec4_r (uDisplacement u p) = c"
  shows "fragNormal u vScreenUv = Vec3 0 0 1
       \<and> rippleMask u vScreenUv = 0
       \<and> specular u vScreenUv = 0
       \<and> fresnel u vScreenUv = 0
       \<and> fresnel u vScreenUv * uLightIntensity u * 0.1 * rippleMask u vScreenUv = 0
       \<and> imageFragmentShader u vUv vScreenUv =
           (let color = refractedColor u vUv vScreenUv
            in Vec4 (vec3_x color) (vec3_y color) (vec3_z color) 1)
       \<and> refractedColor u vUv vScreenUv =
           (let p = clamp2 (coverUv vUv (uImageAspect u) (uPlaneAspect u)) 0.001 0.999
            in Vec3 (vec4_r (texture2D (uTexture u) p)) (vec4_g (texture2D (uTexture u) p))
                    (vec4_b (texture2D (uTexture u) p)))
       \<and> (let q = coverUv vUv (uImageAspect u) (uPlaneAspect u)
          in 0.001 \<le> vec2_x q \<and> vec2_x q \<le> 0.999 \<and> 0.001 \<le> vec2_y q \<and> vec2_y q \<le> 0.999
             \<longrightarrow> imageFragmentShader u vUv vScreenUv =
                   Vec4 (vec4_r (texture2D (uTexture u) q)) (vec4_g (texture2D (uTexture u) q))
                        (vec4_b (texture2D (uTexture u) q)) 1)"
proof -
  have "imageFragmentShader u vUv vScreenUv =
          Vec4 (vec4_r (texture2D (uTexture u) q)) (vec4_g (texture2D (uTexture u) q))
               (vec4_b (texture2D (uTexture u) q)) 1"
    if "q = coverUv vUv (uImageAspect u) (uPlaneAspect u)"
      "0.001 \<le> vec2_x q" "vec2_x q \<le> 0.999" "0.001 \<le> vec2_y q" "vec2_y q \<le> 0.999" for q
  proof -
    have "clamp2 q 0.001 0.999 = q"
      using that(2-5) by (cases q) (simp add: clamp2_def clamp_inside)
    then show ?thesis
      by (simp add: imageFragmentShader_flat [OF assms] refractedColor_flat [OF assms] Let_def
          that(1) [symmetric])
  qed
  then show ?thesis
    by (simp add: fragNormal_flat [OF assms] rippleMask_flat [OF assms] specular_flat [OF assms]
        fresnel_flat [OF assms] imageFragmentShader_flat [OF assms] refractedColor_flat [OF assms] Let_def)
qed

theorem flat_field_no_lighting_witness:
  "(\<forall>p. vec4_r (uDisplacement stillMaterial p) = 0)
   \<and> rippleMask stillMaterial (Vec2 (1 / 4) (1 / 4)) = 0
   \<and> specular stillMaterial (Vec2 (1 / 4) (1 / 4)) = 0
   \<and> imageFragmentShader stillMaterial (Vec2 (1 / 4) (3 / 4)) (Vec2 (1 / 4) (1 / 4)) = Vec4 (1 / 4) (3 / 4) 0 1"
proof -
  note t = flat_field_no_lighting [OF stillMaterial_flat, of "Vec2 (1 / 4) (1 / 4)" "Vec2 (1 / 4) (3 / 4)"]
  have q: "coverUv (Vec2 (1 / 4) (3 / 4)) (uImageAspect stillMaterial) (uPlaneAspect stillMaterial)
      = Vec2 (1 / 4) (3 / 4)"
    by (simp add: stillMaterial_def coverUv_def)
  have g: "texture2D (uTexture stillMaterial) (Vec2 (1 / 4) (3 / 4)) = Vec4 (1 / 4) (3 / 4) 0 1"
    by (simp add: stillMaterial_def gradientImage_def texture2D_def)
  have c: "clamp2 (Vec2 (1 / 4) (3 / 4)) (1 / 1000) (999 / 1000) = Vec2 (1 / 4) (3 / 4)"
    by (simp add: clamp2_def clamp_def)
  from t have "imageFragmentShader stillMaterial (Vec2 (1 / 4) (3 / 4)) (Vec2 (1 / 4) (1 / 4))
      = Vec4 (1 / 4) (3 / 4) 0 1"
    unfolding Let_def q by (simp add: c g)
  with t stillMaterial_flat show ?thesis
    by simp
qed

text \<open>
  C7 as stated fails at the border: the first pixel column of a plane 1024 pixels
  wide has \<open>vUv.x = 1/2048\<close>. Over the all-zero field the cover-fit UV is the
  \<open>vUv\<close> itself, the image there is \<open>(1/2048, 1/2, 0)\<close>, and the fragment gets
  \<open>(1/1000, 1/2, 0)\<close>, the image at the clamped coordinate.
\<close>

theorem edge_fragment_clamped_counterexample:
  "(\<forall>p. uDisplacement stillMaterial p = Vec4 0 0 0 0)
   \<and> coverUv (Vec2 (1 / 2048) (1 / 2)) (uImageAspect stillMaterial) (uPlaneAspect stillMaterial)
       = Vec2 (1 / 2048) (1 / 2)
   \<and> texture2D (uTexture stillMaterial) (Vec2 (1 / 2048) (1 / 2)) = Vec4 (1 / 2048) (1 / 2) 0 1
   \<and> imageFragmentShader stillMaterial (Vec2 (1 / 2048) (1 / 2)) (Vec2 (1 / 2048) (1 / 2))
       = Vec4 (1 / 1000) (1 / 2) 0 1
   \<and> imageFragmentShader stillMaterial (Vec2 (1 / 2048) (1 / 2)) (Vec2 (1 / 2048) (1 / 2))
       \<noteq> texture2D (uTexture stillMaterial)
           (coverUv (Vec2 (1 / 2048) (1 / 2)) (uImageAspect stillMaterial) (uPlaneAspect stillMaterial))"
proof -
  have "imageFragmentShader stillMaterial (Vec2 (1 / 2048) (1 / 2)) (Vec2 (1 / 2048) (1 / 2))
       = Vec4 (1 / 1000) (1 / 2) 0 1"
    unfolding imageFragmentShader_flat [OF stillMaterial_flat] refractedColor_flat [OF stillMaterial_flat]
    by (simp add: stillMaterial_def gradientImage_def coverUv_def texture2D_def clamp2_def clamp_def)
  moreover have "uDisplacement stillMaterial p = Vec4 0 0 0 0" for p
    by (simp add: stillMaterial_def texture_def linearFilter_uniform clearedTarget_def)
  moreover have "coverUv (Vec2 (1 / 2048) (1 / 2)) (uImageAspect stillMaterial) (uPlaneAspect stillMaterial)
       = Vec2 (1 / 2048) (1 / 2)"
    by (simp add: stillMaterial_def coverUv_def)
  moreover have "texture2D (uTexture stillMaterial) (Vec2 (1 / 2048) (1 / 2)) = Vec4 (1 / 2048) (1 / 2) 0 1"
    by (simp add: stillMaterial_def gradientImage_def texture2D_def)
  ultimately show ?thesis
    by simp
qed

text \<open>
  C5, as the code has it. The green channel is sampled at the clamped
  coordinate, inside \<open>[0.001, 0.999]\<close> in both components. The red and
  blue channels are sampled at the same height, the aberration amount to the
  right and to the left of it: the offset is added after the clamp. For a
  non-negative aberration the amount lies between 0 and \<open>aberration * sqrt 2\<close>,
  so red can pass 0.999 and blue can fall below 0.001 by that much.
\<close>

theorem sample_coordinates:
  "0.001 \<le> vec2_x (sampleG u vUv vScreenUv) \<and> vec2_x (sampleG u vUv vScreenUv) \<le> 0.999
   \<and> 0.001 \<le> vec2_y (sampleG u vUv vScreenUv) \<and> vec2_y (sampleG u vUv vScreenUv) \<le> 0.999
   \<and> vec2_y (sampleR u vUv vScreenUv) = vec2_y (sampleG u vUv vScreenUv)
   \<and> vec2_y (sampleB u vUv vScreenUv) = vec2_y (sampleG u vUv vScreenUv)
   \<and> vec2_x (sampleR u vUv vScreenUv) = vec2_x (sampleG u vUv vScreenUv) + aberrationAmount u vScreenUv
   \<and> vec2_x (sampleB u vUv vScreenUv) = vec2_x (sampleG u vUv vScreenUv) - aberrationAmount u vScreenUv
   \<and> (0 \<le> uAberration u \<longrightarrow>
        0 \<le> aberrationAmount u vScreenUv
      \<and> aberrationAmount u vScreenUv \<le> uAberration u * sqrt 2
      \<and> 0.001 \<le> vec2_x (sampleR u vUv vScreenUv)
      \<and> vec2_x (sampleR u vUv vScreenUv) \<le> 0.999 + uAberration u * sqrt 2
      \<and> 0.001 - uAberration u * sqrt 2 \<le> vec2_x (sampleB u vUv vScreenUv)
      \<and> vec2_x (sampleB u vUv vScreenUv) \<le> 0.999)"
  using distortedUv_bounds [of u vUv vScreenUv] aberrationAmount_bounds [of u vScreenUv]
  by (auto simp add: sampleR_def sampleG_def sampleB_def add2_def sub2_def)

theorem sample_coordinates_witness:
  "0 \<le> uAberration slopeMaterial
   \<and> vec2_x (sampleG slopeMaterial (Vec2 (99 / 100) (1 / 2)) (texelCentre 5 5)) \<le> 0.999
   \<and> vec2_x (sampleR slopeMaterial (Vec2 (99 / 100) (1 / 2)) (texelCentre 5 5))
        \<le> 0.999 + uAberration slopeMaterial * sqrt 2
   \<and> 0.001 - uAberration slopeMaterial * sqrt 2
        \<le> vec2_x (sampleB slopeMaterial (Vec2 (99 / 100) (1 / 2)) (texelCentre 5 5))"
proof -
  have "0 \<le> uAberration slopeMaterial"
    by (simp add: slopeMaterial_def stillMaterial_def)
  with sample_coordinates [of slopeMaterial "Vec2 (99 / 100) (1 / 2)" "texelCentre 5 5"]
  show ?thesis
    by simp
qed

text \<open>
  C5 as stated fails: over the sloping field the normal at cell \<open>(5, 5)\<close> is
  \<open>(3/5, 0, 4/5)\<close>; a fragment at \<open>vUv = (0.99, 0.5)\<close> is refracted to 1.02,
  clamped to 0.999, and its red channel is sampled at 1.005.
\<close>

theorem red_sample_outside_counterexample:
  "0 \<le> uDistortionStrength slopeMaterial \<and> 0 \<le> uAberration slopeMaterial
   \<and> fragNormal slopeMaterial (texelCentre 5 5) = Vec3 (3 / 5) 0 (4 / 5)
   \<and> sampleG slopeMaterial (Vec2 (99 / 100) (1 / 2)) (texelCentre 5 5) = Vec2 (999 / 1000) (1 / 2)
   \<and> sampleR slopeMaterial (Vec2 (99 / 100) (1 / 2)) (texelCentre 5 5) = Vec2 (201 / 200) (1 / 2)
   \<and> \<not> vec2_x (sampleR slopeMaterial (Vec2 (99 / 100) (1 / 2)) (texelCentre 5 5)) \<le> 0.999"
proof -
  have a: "aberrationAmount slopeMaterial (texelCentre 5 5) = 3 / 500"
    by (simp add: aberrationAmount_def Let_def slopeMaterial_normal)
       (simp add: slopeMaterial_def stillMaterial_def)
  have d: "distortedUv slopeMaterial (Vec2 (99 / 100) (1 / 2)) (texelCentre 5 5) = Vec2 (999 / 1000) (1 / 2)"
    by (simp add: distortedUv_def Let_def slopeMaterial_normal)
       (simp add: slopeMaterial_def stillMaterial_def coverUv_def add2_def clamp2_def clamp_def)
  show ?thesis
    by (simp add: sampleR_def sampleG_def a d slopeMaterial_normal add2_def)
       (simp add: slopeMaterial_def stillMaterial_def)
qed

end
